theory Spec2Isabelle
  imports Main "HOL-Library.Code_Target_Numeral"
begin

section \<open>JavaScript values\<close>

text \<open>
  The values \<^verbatim>\<open>server.js\<close> handles: request parameters, parsed JSON, rows of a
  recordset, response bodies. The numbers that occur are integers (ids, ports, object
  ids), the two infinities and \<open>NaN\<close>; minus zero is not told from zero. An object is
  its list of properties, with distinct keys, as \<^verbatim>\<open>JSON.parse\<close> builds it.

  A JavaScript string is a sequence of UTF-16 code units. The texts that come from
  outside and are read character by character (the id of a URL, the \<^verbatim>\<open>PORT\<close>
  variable) are given as such, \<open>jsstring\<close>, and carried by \<open>Text\<close>. The strings the
  program builds and compares as wholes are written as \<open>string\<close> and carried by
  \<open>Str\<close>; where such a string is parsed, each of its characters stands for the code
  unit of the same number (\<open>units\<close>).
\<close>

type_synonym jsstring = "nat list"

definition units :: "string \<Rightarrow> jsstring" where
  "units s = map of_char s"

datatype jsval =
    Undefined
  | Null
  | Bool bool
  | Num int
  | Infinity
  | NegInfinity
  | NaN
  | Str string
  | Text jsstring
  | Arr "jsval list"
  | Obj "(string \<times> jsval) list"

text \<open>An exception: the \<^verbatim>\<open>name\<close> of its class and its \<^verbatim>\<open>message\<close>.\<close>

datatype exn = Exn (ename: string) (emessage: string)

text \<open>\<^verbatim>\<open>if (v)\<close>, \<^verbatim>\<open>!v\<close>: JavaScript's ToBoolean.\<close>

fun truthy :: "jsval \<Rightarrow> bool" where
  "truthy Undefined = False"
| "truthy Null = False"
| "truthy (Bool b) = b"
| "truthy (Num n) = (n \<noteq> 0)"
| "truthy Infinity = True"
| "truthy NegInfinity = True"
| "truthy NaN = False"
| "truthy (Str s) = (s \<noteq> [])"
| "truthy (Text s) = (s \<noteq> [])"
| "truthy (Arr _) = True"
| "truthy (Obj _) = True"

text \<open>
  \<^verbatim>\<open>v.k\<close> and \<^verbatim>\<open>v[k]\<close> for the property names the program reads (\<^verbatim>\<open>port\<close>,
  \<^verbatim>\<open>user\<close>, \<^verbatim>\<open>password\<close>, \<^verbatim>\<open>server\<close>, \<^verbatim>\<open>database\<close>, \<^verbatim>\<open>TableID\<close>,
  \<^verbatim>\<open>image_path\<close>, \<^verbatim>\<open>id\<close>): a TypeError on \<^verbatim>\<open>null\<close> and \<^verbatim>\<open>undefined\<close>,
  \<^verbatim>\<open>undefined\<close> on a primitive or an array, the property's value on an object.
\<close>

fun get_prop :: "jsval \<Rightarrow> string \<Rightarrow> exn + jsval" where
  "get_prop Undefined k = Inl (Exn ''TypeError'' (''Cannot read properties of undefined (reading '' @ k @ '')''))"
| "get_prop Null k = Inl (Exn ''TypeError'' (''Cannot read properties of null (reading '' @ k @ '')''))"
| "get_prop (Obj kvs) k = Inr (case map_of kvs k of None \<Rightarrow> Undefined | Some v \<Rightarrow> v)"
| "get_prop _ k = Inr Undefined"

text \<open>
  \<^verbatim>\<open>v.k = x\<close> (the file is not in strict mode): a TypeError on \<^verbatim>\<open>null\<close> and
  \<^verbatim>\<open>undefined\<close>, silently nothing on a primitive; on an array the property is set
  but no JSON text shows it; on an object the property is replaced in place or appended.
\<close>

fun set_prop :: "jsval \<Rightarrow> string \<Rightarrow> jsval \<Rightarrow> exn + jsval" where
  "set_prop Undefined k x = Inl (Exn ''TypeError'' (''Cannot set properties of undefined (setting '' @ k @ '')''))"
| "set_prop Null k x = Inl (Exn ''TypeError'' (''Cannot set properties of null (setting '' @ k @ '')''))"
| "set_prop (Obj kvs) k x =
     Inr (Obj (if k \<in> fst ` set kvs then map (\<lambda>(k', v). if k' = k then (k', x) else (k', v)) kvs
               else kvs @ [(k, x)]))"
| "set_prop v k x = Inr v"

subsection \<open>parseInt\<close>

text \<open>
  \<^verbatim>\<open>parseInt(s)\<close> with no radix: leading white space is dropped, then an optional sign,
  then \<^verbatim>\<open>0x\<close> or \<^verbatim>\<open>0X\<close> selects radix 16 (radix 10 otherwise); the result is the
  value of the longest prefix of digits of that radix, as a number, and \<^verbatim>\<open>NaN\<close> when
  that prefix is empty. Whatever follows the digits is ignored.

  White space is what the language calls WhiteSpace and LineTerminator: tab, line feed,
  vertical tab, form feed, carriage return, space, U+00A0, U+1680, U+2000 to U+200A,
  U+2028, U+2029, U+202F, U+205F, U+3000 and U+FEFF.
\<close>

definition is_space :: "nat \<Rightarrow> bool" where
  "is_space c \<longleftrightarrow>
     c \<in> set [0x09, 0x0A, 0x0B, 0x0C, 0x0D, 0x20, 0xA0, 0x1680, 0x2028, 0x2029, 0x202F,
              0x205F, 0x3000, 0xFEFF]
     \<or> (0x2000 \<le> c \<and> c \<le> 0x200A)"

text \<open>The digit a code unit stands for: \<^verbatim>\<open>0\<close> to \<^verbatim>\<open>9\<close>, then the letters of either case.\<close>

definition digit_of :: "nat \<Rightarrow> nat option" where
  "digit_of c =
     (if 0x30 \<le> c \<and> c \<le> 0x39 then Some (c - 0x30)
      else if 0x61 \<le> c \<and> c \<le> 0x7A then Some (c - 0x61 + 10)
      else if 0x41 \<le> c \<and> c \<le> 0x5A then Some (c - 0x41 + 10)
      else None)"

fun digits_prefix :: "nat \<Rightarrow> jsstring \<Rightarrow> nat list" where
  "digits_prefix r [] = []"
| "digits_prefix r (c # cs) =
     (case digit_of c of
        None \<Rightarrow> []
      | Some d \<Rightarrow> if d < r then d # digits_prefix r cs else [])"

definition digits_value :: "nat \<Rightarrow> nat list \<Rightarrow> nat" where
  "digits_value r ds = foldl (\<lambda>a d. a * r + d) 0 ds"

definition strip_sign :: "jsstring \<Rightarrow> bool \<times> jsstring" where
  "strip_sign t =
     (case t of
        [] \<Rightarrow> (False, t)
      | c # cs \<Rightarrow> if c = 0x2D then (True, cs)
                 else if c = 0x2B then (False, cs)
                 else (False, t))"

definition strip_radix :: "jsstring \<Rightarrow> nat \<times> jsstring" where
  "strip_radix u =
     (if take 2 u = [0x30, 0x78] \<or> take 2 u = [0x30, 0x58] then (16, drop 2 u) else (10, u))"

text \<open>
  The number a natural number becomes: itself below 2^53; beyond, the nearest number
  with 53 significant bits, a tie going to the even one; and infinity (\<open>None\<close>) when
  that reaches 2^1024. This is the rounding the language prescribes, and the one Node's
  engine applies to the digits of either radix.
\<close>

function bit_length :: "nat \<Rightarrow> nat" where
  "bit_length n = (if n = 0 then 0 else Suc (bit_length (n div 2)))"
  by pat_completeness auto
termination
  by (relation "measure (\<lambda>n. n)") auto

declare bit_length.simps [simp del]

definition round_double :: "nat \<Rightarrow> nat option" where
  "round_double n =
     (if n < 9007199254740992 then Some n
      else
        (let e = bit_length n - 53;
             q = n div 2 ^ e;
             r = n mod 2 ^ e;
             q' = (if r > 2 ^ (e - 1) \<or> (r = 2 ^ (e - 1) \<and> odd q) then q + 1 else q);
             m = q' * 2 ^ e
         in if m \<ge> 2 ^ 1024 then None else Some m))"

definition parseInt :: "jsstring \<Rightarrow> jsval" where
  "parseInt s =
     (let (neg, u) = strip_sign (dropWhile is_space s);
          (r, v) = strip_radix u;
          ds = digits_prefix r v
      in if ds = [] then NaN
         else
           (case round_double (digits_value r ds) of
              None \<Rightarrow> if neg then NegInfinity else Infinity
            | Some m \<Rightarrow> Num ((if neg then - 1 else 1) * int m)))"

fun isNaN :: "jsval \<Rightarrow> bool" where
  "isNaN NaN = True"
| "isNaN _ = False"

text \<open>\<^verbatim>\<open>x < k\<close> and \<^verbatim>\<open>x > k\<close> for a number \<open>x\<close> that is not \<^verbatim>\<open>NaN\<close>.\<close>

fun js_less :: "jsval \<Rightarrow> int \<Rightarrow> bool" where
  "js_less (Num n) k = (n < k)"
| "js_less NegInfinity k = True"
| "js_less _ k = False"

fun js_greater :: "jsval \<Rightarrow> int \<Rightarrow> bool" where
  "js_greater (Num n) k = (n > k)"
| "js_greater Infinity k = True"
| "js_greater _ k = False"

section \<open>The world outside the process\<close>

subsection \<open>Files\<close>

text \<open>
  The disk, by absolute path. What a file holds is never read back by the image routes,
  so a node is only a plain file or a directory.
\<close>

datatype fs_node = File | Dir

type_synonym filesystem = "string \<rightharpoonup> fs_node"

subsection \<open>The Images table\<close>

text \<open>
  \<^verbatim>\<open>CREATE TABLE Images (id INT PRIMARY KEY IDENTITY(1,1), image_path NVARCHAR(255)
  NOT NULL, upload_date DATETIME DEFAULT GETDATE())\<close>. The database holds the table or
  not; the table holds its rows in insertion order and the next identity value.
\<close>

record image_row =
  row_id :: int
  image_path :: string
  upload_date :: nat

record images_table =
  rows :: "image_row list"
  next_identity :: int

type_synonym database = "images_table option"

text \<open>
  The six statements the program sends; the two with \<^verbatim>\<open>@id\<close> carry the value given
  for it.
\<close>

datatype sql =
    SelectObjectId
  | CreateTable
  | InsertImage string
  | SelectAll
  | SelectPathById jsval
  | DeleteById jsval

subsection \<open>Observable effects\<close>

text \<open>
  A \<^verbatim>\<open>console\<close> line is its text and the values printed with it; the pictographs
  that open some of the program's messages are left out of the text.
\<close>

datatype event =
    Console string "jsval list"
  | DbQuery sql
  | FsExists string
  | FsUnlink string
  | FsWriteFile string
  | FsReadFile string
  | Question string
  | DbConnect
  | Listen jsval

text \<open>
  \<^verbatim>\<open>config.json\<close> is the one file whose content is read: it is absent, or there but
  not readable as JSON (with the error's message), or it holds a JSON value.
\<close>

datatype cfg_file = NoFile | Unreadable string | Content jsval

text \<open>
  The state a request or the startup runs in: the disk, \<^verbatim>\<open>config.json\<close>, the
  database, the clock (\<^verbatim>\<open>Date.now()\<close>, \<^verbatim>\<open>GETDATE()\<close>), standard input, and the
  effects so far, oldest first. Standard input is what the questions still to be asked
  will meet, one after the other: a line typed, or the interface already closed; when
  the list is empty a question is never answered.
\<close>

datatype reply = Line string | Closed

record world =
  fs :: filesystem
  config_file :: cfg_file
  db :: database
  clock :: nat
  stdin :: "reply list"
  trace :: "event list"

definition emit :: "event \<Rightarrow> world \<Rightarrow> world" where
  "emit e w = w\<lparr>trace := trace w @ [e]\<rparr>"

text \<open>
  \<^verbatim>\<open>app.listen(port)\<close> opens the listener, throws (a port the runtime refuses), or
  reports an \<^verbatim>\<open>error\<close> event with a code later.
\<close>

datatype listen_outcome = ListenOk | ListenThrows exn | ListenError string

text \<open>
  What lies outside the repository and answers differently from run to run is given to
  each operation: \<open>Some msg\<close> makes the call throw with that message, whether the
  database server, the driver or the operating system refuses. There is one fault for
  each place where the program calls out: the connection, the six statements, the
  \<^verbatim>\<open>unlinkSync\<close> of the routes, the write of an uploaded file, the write of
  \<^verbatim>\<open>config.json\<close>, and the listener.
\<close>

record faults =
  connect_fault :: "string option"
  exists_fault :: "string option"
  create_fault :: "string option"
  select_fault :: "string option"
  delete_fault :: "string option"
  insert_fault :: "string option"
  list_fault :: "string option"
  unlink_fault :: "string option"
  write_fault :: "string option"
  save_fault :: "string option"
  listen :: listen_outcome

definition no_faults :: faults where
  "no_faults = \<lparr>connect_fault = None, exists_fault = None, create_fault = None,
     select_fault = None, delete_fault = None, insert_fault = None,
     list_fault = None, unlink_fault = None, write_fault = None, save_fault = None,
     listen = ListenOk\<rparr>"

text \<open>
  The working directory (\<^verbatim>\<open>process.cwd()\<close>), the functions of Node's
  \<^verbatim>\<open>path\<close> module that the program calls, and what the multipart parser makes of
  the \<^verbatim>\<open>Content-Type\<close> a file part declares (it lower-cases the type and leaves its
  parameters out) before the upload middleware hands it on as \<^verbatim>\<open>file.mimetype\<close>.
\<close>

record lib =
  baseDir :: string
  resolve :: "string \<Rightarrow> string \<Rightarrow> string"
  join :: "string \<Rightarrow> string \<Rightarrow> string"
  extname :: "string \<Rightarrow> string"
  mimeType :: "string \<Rightarrow> string"

subsection \<open>Running a statement\<close>

definition row_json :: "image_row \<Rightarrow> jsval" where
  "row_json r = Obj [(''id'', Num (row_id r)), (''image_path'', Str (image_path r)),
                     (''upload_date'', Num (int (upload_date r)))]"

text \<open>
  What the engine does with a statement that it accepts: the recordset and the new
  database. A statement on a table that is not there is an error of the engine, as is
  creating a table that is. \<^verbatim>\<open>OBJECT_ID('dbo.Images')\<close> is \<^verbatim>\<open>NULL\<close> without the
  table and the table's object id with it, a number other than 0 (1 here). An inserted
  row takes the next identity value and the current time. An \<^verbatim>\<open>@id\<close> that is no
  integer cannot be sent as an \<^verbatim>\<open>INT\<close>.
\<close>

fun exec_sql :: "nat \<Rightarrow> sql \<Rightarrow> database \<Rightarrow> string + (jsval list \<times> database)" where
  "exec_sql now SelectObjectId d =
     Inr ([Obj [(''TableID'', (case d of None \<Rightarrow> Null | Some t \<Rightarrow> Num 1))]], d)"
| "exec_sql now CreateTable None = Inr ([], Some \<lparr>rows = [], next_identity = 1\<rparr>)"
| "exec_sql now CreateTable (Some t) =
     Inl ''There is already an object named Images in the database.''"
| "exec_sql now q None = Inl ''Invalid object name Images.''"
| "exec_sql now (InsertImage p) (Some t) =
     Inr ([], Some (t\<lparr>rows := rows t @ [\<lparr>row_id = next_identity t, image_path = p, upload_date = now\<rparr>],
                       next_identity := next_identity t + 1\<rparr>))"
| "exec_sql now SelectAll (Some t) = Inr (map row_json (rows t), Some t)"
| "exec_sql now (SelectPathById (Num i)) (Some t) =
     Inr (map (\<lambda>r. Obj [(''image_path'', Str (image_path r))])
            (filter (\<lambda>r. row_id r = i) (rows t)), Some t)"
| "exec_sql now (DeleteById (Num i)) (Some t) =
     Inr ([], Some (t\<lparr>rows := filter (\<lambda>r. row_id r \<noteq> i) (rows t)\<rparr>))"
| "exec_sql now q (Some t) = Inl ''Validation failed for parameter id. Invalid number.''"

text \<open>
  \<^verbatim>\<open>await pool.request()...query(q)\<close>: the statement is sent; it fails from outside
  (the fault) or in the engine, or gives its recordset and changes the database.
\<close>

definition db_query :: "string option \<Rightarrow> sql \<Rightarrow> world \<Rightarrow> (string + jsval list) \<times> world" where
  "db_query fault q w =
     (let w1 = emit (DbQuery q) w in
      case fault of
        Some msg \<Rightarrow> (Inl msg, w1)
      | None \<Rightarrow>
          (case exec_sql (clock w1) q (db w1) of
             Inl msg \<Rightarrow> (Inl msg, w1)
           | Inr (rs, d) \<Rightarrow> (Inr rs, w1\<lparr>db := d\<rparr>)))"

subsection \<open>File system calls\<close>

definition existsSync :: "string \<Rightarrow> world \<Rightarrow> bool \<times> world" where
  "existsSync p w = (fs w p \<noteq> None, emit (FsExists p) w)"

text \<open>
  \<^verbatim>\<open>fs.unlinkSync(p)\<close> throws when the fault says so, when nothing is at \<open>p\<close>
  and when \<open>p\<close> is a directory; otherwise the file is gone.
\<close>

definition unlinkSync :: "string option \<Rightarrow> string \<Rightarrow> world \<Rightarrow> (string + unit) \<times> world" where
  "unlinkSync fault p w =
     (let w1 = emit (FsUnlink p) w in
      case fault of
        Some msg \<Rightarrow> (Inl msg, w1)
      | None \<Rightarrow>
          (case fs w1 p of
             None \<Rightarrow> (Inl (''ENOENT: no such file or directory, unlink '' @ p), w1)
           | Some Dir \<Rightarrow> (Inl (''EPERM: operation not permitted, unlink '' @ p), w1)
           | Some File \<Rightarrow> (Inr (), w1\<lparr>fs := (fs w1)(p := None)\<rparr>)))"

section \<open>The image routes\<close>

text \<open>
  A route answers with a status and a JSON body, or its handler's promise rejects and
  nothing is sent.
\<close>

datatype http_result = Response nat jsval | Unhandled exn

subsection \<open>GET /api/images\<close>

definition listImages :: "faults \<Rightarrow> world \<Rightarrow> http_result \<times> world" where
  "listImages F w =
     (case db_query (list_fault F) SelectAll w of
        (Inl msg, w1) \<Rightarrow>
          (Response 500 (Obj [(''error'', Str ''DB fetch failed''), (''details'', Str msg)]), w1)
      | (Inr rs, w1) \<Rightarrow> (Response 200 (Arr rs), w1))"

subsection \<open>DELETE /api/images/:id\<close>

definition deleteFailed :: "string \<Rightarrow> world \<Rightarrow> http_result \<times> world" where
  "deleteFailed msg w =
     (Response 500 (Obj [(''error'', Str ''Delete failed''), (''details'', Str msg)]), w)"

text \<open>The path on disk of a stored \<^verbatim>\<open>image_path\<close>: a leading slash is dropped.\<close>

definition fullPathOf :: "lib \<Rightarrow> string \<Rightarrow> string" where
  "fullPathOf L imagePath =
     (let relativePath = (if take 1 imagePath = ''/'' then drop 1 imagePath else imagePath)
      in resolve L (baseDir L) relativePath)"

definition deleteImage :: "lib \<Rightarrow> faults \<Rightarrow> jsstring \<Rightarrow> world \<Rightarrow> http_result \<times> world" where
  "deleteImage L F idParam w =
     (let id = parseInt idParam in
      if isNaN id then (Response 400 (Obj [(''error'', Str ''Invalid ID format'')]), w)
      else
        (case db_query (select_fault F) (SelectPathById id) w of
           (Inl msg, w1) \<Rightarrow> deleteFailed msg w1
         | (Inr rs, w1) \<Rightarrow>
             (case rs of
                [] \<Rightarrow> (Response 404 (Obj [(''error'', Str ''Image not found'')]), w1)
              | r # _ \<Rightarrow>
                  (case get_prop r ''image_path'' of
                     Inr (Str imagePath) \<Rightarrow>
                       (let fullPath = fullPathOf L imagePath;
                            (ex, w2) = existsSync fullPath w1;
                            (u, w3) = (if ex then unlinkSync (unlink_fault F) fullPath w2
                                       else (Inr (), emit (Console (''File not found: '' @ fullPath) []) w2))
                        in case u of
                             Inl msg \<Rightarrow> deleteFailed msg w3
                           | Inr _ \<Rightarrow>
                               (case db_query (delete_fault F) (DeleteById id) w3 of
                                  (Inl msg, w4) \<Rightarrow> deleteFailed msg w4
                                | (Inr _, w4) \<Rightarrow>
                                    (Response 200 (Obj [(''message'', Str ''Image deleted'')]), w4)))
                   | _ \<Rightarrow> deleteFailed ''imagePath.startsWith is not a function'' w1))))"

subsection \<open>POST /api/upload\<close>

text \<open>
  The file part of a multipart request: the form field it came in, the name the client
  gave, the \<^verbatim>\<open>Content-Type\<close> it declares and the number of bytes.
\<close>

record file_part =
  fieldname :: string
  originalname :: string
  contentType :: string
  fsize :: nat

text \<open>\<^verbatim>\<open>req.file\<close>: the name the file was stored under and where it is on disk.\<close>

record multer_file =
  filename :: string
  path :: string

definition imageUploadDirectory :: "lib \<Rightarrow> string" where
  "imageUploadDirectory L = resolve L (baseDir L) ''uploads/images''"

text \<open>\<^verbatim>\<open>allowedTypes.includes(file.mimetype)\<close>.\<close>

definition fileFilter :: "string \<Rightarrow> bool" where
  "fileFilter mimetype \<longleftrightarrow> mimetype \<in> set [''image/jpeg'', ''image/png'', ''image/gif'']"

definition fileSize :: nat where
  "fileSize = 5 * 1024 * 1024"

text \<open>A natural number in decimal, as a template string prints it.\<close>

definition digit_char :: "nat \<Rightarrow> char" where
  "digit_char d = ''0123456789'' ! d"

function decimal :: "nat \<Rightarrow> string" where
  "decimal n = (if n < 10 then [digit_char n] else decimal (n div 10) @ [digit_char (n mod 10)])"
  by pat_completeness auto
termination
  by (relation "measure (\<lambda>n. n)") auto

declare decimal.simps [simp del]

text \<open>
  \<^verbatim>\<open>`${Date.now()}-${Math.round(Math.random() * 1e9)}${path.extname(file.originalname)}`\<close>;
  \<open>rnd\<close> is the rounded random number.
\<close>

definition uniqueName :: "lib \<Rightarrow> nat \<Rightarrow> nat \<Rightarrow> file_part \<Rightarrow> string" where
  "uniqueName L now rnd file = decimal now @ ''-'' @ decimal rnd @ extname L (originalname file)"

text \<open>
  \<^verbatim>\<open>upload.single('image')\<close>, the multer middleware (version 1.4.5-lts) configured with
  the program's storage, filter and limit, on a request with at most one file part. With
  no file part it passes on with \<^verbatim>\<open>req.file\<close> unset, and so it does with a part
  that has no file name. A file in another field is an error. The filter is asked
  with the type the parser made of the declared one; a file it refuses is skipped,
  never stored, and \<^verbatim>\<open>req.file\<close> stays unset. Any other file
  is streamed to the upload directory under its unique name; when the stream reaches
  the size limit (\<open>fileSize\<close> bytes or more) the middleware removes what it wrote and
  passes the error on. A write that fails is passed on as an error too, with nothing
  stored.
\<close>

datatype multer_outcome = Next "multer_file option" | NextError exn

definition upload_single ::
  "lib \<Rightarrow> faults \<Rightarrow> nat \<Rightarrow> file_part option \<Rightarrow> world \<Rightarrow> multer_outcome \<times> world" where
  "upload_single L F rnd part w =
     (case part of
        None \<Rightarrow> (Next None, w)
      | Some file \<Rightarrow>
          if originalname file = [] then (Next None, w)
          else if fieldname file \<noteq> ''image''
          then (NextError (Exn ''MulterError'' ''Unexpected field''), w)
          else if \<not> fileFilter (mimeType L (contentType file)) then (Next None, w)
          else
            (let name = uniqueName L (clock w) rnd file;
                 p = join L (imageUploadDirectory L) name;
                 w1 = emit (FsWriteFile p) w
             in case write_fault F of
                  Some msg \<Rightarrow> (NextError (Exn ''Error'' msg), w1)
                | None \<Rightarrow>
                    (let w2 = w1\<lparr>fs := (fs w1)(p \<mapsto> File)\<rparr> in
                     if fsize file \<ge> fileSize
                     then (NextError (Exn ''MulterError'' ''File too large''),
                           (emit (FsUnlink p) w2)\<lparr>fs := (fs w2)(p := None)\<rparr>)
                     else (Next (Some \<lparr>filename = name, path = p\<rparr>), w2))))"

text \<open>The last middleware: any error passed on is logged and answered with 500.\<close>

definition errorMiddleware :: "exn \<Rightarrow> world \<Rightarrow> http_result \<times> world" where
  "errorMiddleware err w =
     (Response 500 (Obj [(''error'', Str (emessage err))]),
      emit (Console ''Unhandled error:'' [Str (ename err), Str (emessage err)]) w)"

text \<open>
  The route's own handler. The \<^verbatim>\<open>unlinkSync\<close> of its \<^verbatim>\<open>catch\<close> block is not
  itself inside a \<^verbatim>\<open>try\<close>: when it throws, the handler's promise rejects.
\<close>

definition uploadHandler :: "faults \<Rightarrow> multer_file option \<Rightarrow> world \<Rightarrow> http_result \<times> world" where
  "uploadHandler F reqFile w =
     (case reqFile of
        None \<Rightarrow> (Response 400 (Obj [(''error'', Str ''No file uploaded'')]), w)
      | Some file \<Rightarrow>
          (let imagePath = ''/uploads/images/'' @ filename file in
           case db_query (insert_fault F) (InsertImage imagePath) w of
             (Inr _, w1) \<Rightarrow>
               (Response 200 (Obj [(''message'', Str ''Image uploaded successfully''),
                                   (''path'', Str imagePath),
                                   (''filename'', Str (filename file))]), w1)
           | (Inl msg, w1) \<Rightarrow>
               (case unlinkSync (unlink_fault F) (path file) w1 of
                  (Inl umsg, w2) \<Rightarrow> (Unhandled (Exn ''Error'' umsg), w2)
                | (Inr _, w2) \<Rightarrow>
                    (Response 500 (Obj [(''error'', Str ''DB insert failed''),
                                        (''details'', Str msg)]), w2))))"

definition postUpload ::
  "lib \<Rightarrow> faults \<Rightarrow> nat \<Rightarrow> file_part option \<Rightarrow> world \<Rightarrow> http_result \<times> world" where
  "postUpload L F rnd part w =
     (case upload_single L F rnd part w of
        (NextError err, w1) \<Rightarrow> errorMiddleware err w1
      | (Next reqFile, w1) \<Rightarrow> uploadHandler F reqFile w1)"

section \<open>Startup\<close>

text \<open>
  What the process is started with: the environment variables it reads (after
  \<^verbatim>\<open>dotenv\<close> has loaded \<^verbatim>\<open>.env\<close>) and whether it runs as a packaged executable
  (\<^verbatim>\<open>process.pkg\<close>).
\<close>

record environment =
  PORT :: "jsstring option"
  DB_USER :: "string option"
  DB_PASSWORD :: "string option"
  DB_SERVER :: "string option"
  DB_NAME :: "string option"
  pkg :: bool

text \<open>\<^verbatim>\<open>if (process.env.X)\<close>: the variable is there and not the empty string.\<close>

definition env_truthy :: "'a list option \<Rightarrow> bool" where
  "env_truthy v = (case v of None \<Rightarrow> False | Some s \<Rightarrow> s \<noteq> [])"

definition env_value :: "string option \<Rightarrow> jsval" where
  "env_value v = (case v of None \<Rightarrow> Undefined | Some s \<Rightarrow> Str s)"

text \<open>
  An \<^verbatim>\<open>async\<close> function returns, throws, or never settles (it waits for an answer
  that does not come).
\<close>

datatype 'a outcome = Returned 'a | Threw exn | Pending

definition configPath :: "lib \<Rightarrow> string" where
  "configPath L = resolve L (baseDir L) ''config.json''"

definition config_exists :: "lib \<Rightarrow> world \<Rightarrow> bool \<times> world" where
  "config_exists L w = (config_file w \<noteq> NoFile, emit (FsExists (configPath L)) w)"

text \<open>\<^verbatim>\<open>JSON.parse(fs.readFileSync(configPath, 'utf8'))\<close>: the value, or what was thrown.\<close>

definition read_config :: "lib \<Rightarrow> world \<Rightarrow> (string + jsval) \<times> world" where
  "read_config L w =
     (let w1 = emit (FsReadFile (configPath L)) w in
      case config_file w1 of
        Content v \<Rightarrow> (Inr v, w1)
      | Unreadable msg \<Rightarrow> (Inl msg, w1)
      | NoFile \<Rightarrow> (Inl ''ENOENT: no such file or directory'', w1))"

text \<open>\<^verbatim>\<open>fs.writeFileSync(configPath, JSON.stringify(config, null, 2))\<close>.\<close>

definition save_config :: "string option \<Rightarrow> lib \<Rightarrow> jsval \<Rightarrow> world \<Rightarrow> (string + unit) \<times> world" where
  "save_config fault L config w =
     (let w1 = emit (FsWriteFile (configPath L)) w in
      case fault of
        Some msg \<Rightarrow> (Inl msg, w1)
      | None \<Rightarrow> (Inr (), w1\<lparr>config_file := Content config\<rparr>))"

text \<open>
  \<^verbatim>\<open>prompt(question)\<close>: the promise resolves with the line typed; it rejects when
  \<^verbatim>\<open>rl.question\<close> throws because the interface is closed; it never settles when no
  answer comes.
\<close>

definition prompt :: "string \<Rightarrow> world \<Rightarrow> string outcome \<times> world" where
  "prompt question w =
     (let w1 = emit (Question question) w in
      case stdin w1 of
        [] \<Rightarrow> (Pending, w1)
      | Line answer # rest \<Rightarrow> (Returned answer, w1\<lparr>stdin := rest\<rparr>)
      | Closed # rest \<Rightarrow> (Threw (Exn ''Error'' ''readline was closed''), w1\<lparr>stdin := rest\<rparr>))"

text \<open>\<^verbatim>\<open>answer.toLowerCase() === 'y'\<close>.\<close>

definition is_y :: "string \<Rightarrow> bool" where
  "is_y answer \<longleftrightarrow> answer = ''y'' \<or> answer = ''Y''"

subsection \<open>checkAndCreateTable\<close>

definition tableError :: "string \<Rightarrow> exn" where
  "tableError msg = Exn ''DatabaseError'' (''Error checking/creating table: '' @ msg)"

definition checkAndCreateTable :: "faults \<Rightarrow> world \<Rightarrow> (exn + bool) \<times> world" where
  "checkAndCreateTable F w =
     (case db_query (exists_fault F) SelectObjectId w of
        (Inl msg, w1) \<Rightarrow> (Inl (tableError msg), w1)
      | (Inr recordset, w1) \<Rightarrow>
          (case get_prop (case recordset of [] \<Rightarrow> Undefined | r # _ \<Rightarrow> r) ''TableID'' of
             Inl e \<Rightarrow> (Inl (tableError (emessage e)), w1)
           | Inr tableID \<Rightarrow>
               if \<not> truthy tableID then
                 (case db_query (create_fault F) CreateTable (emit (Console ''Creating Images table...'' []) w1) of
                    (Inl msg, w2) \<Rightarrow> (Inl (tableError msg), w2)
                  | (Inr _, w2) \<Rightarrow>
                      (Inr True, emit (Console ''Images table created successfully'' []) w2))
               else (Inr True, emit (Console ''Images table already exists'' []) w1)))"

subsection \<open>validateDbConfig\<close>

fun join_comma :: "string list \<Rightarrow> string" where
  "join_comma [] = []"
| "join_comma [x] = x"
| "join_comma (x # y # ys) = x @ '', '' @ join_comma (y # ys)"

definition requiredFields :: "string list" where
  "requiredFields = [''user'', ''password'', ''server'', ''database'']"

definition validateDbConfig :: "jsval \<Rightarrow> exn + bool" where
  "validateDbConfig config =
     (if \<not> truthy config
      then Inl (Exn ''ConfigurationError'' ''Database configuration is required'')
      else
        (let missingFields =
               filter (\<lambda>field. case get_prop config field of Inl _ \<Rightarrow> True | Inr v \<Rightarrow> \<not> truthy v)
                 requiredFields
         in if length missingFields > 0
            then Inl (Exn ''ConfigurationError''
                   (''Missing required database configuration fields: '' @ join_comma missingFields))
            else Inr True))"

subsection \<open>getPortConfiguration\<close>

definition defaultPort :: "world \<Rightarrow> jsval outcome \<times> world" where
  "defaultPort w = (Returned (Num 3001), emit (Console ''Using default port 3001'' []) w)"

text \<open>Step 3, entered only when \<^verbatim>\<open>process.pkg\<close> is set.\<close>

definition promptPort :: "lib \<Rightarrow> faults \<Rightarrow> jsval \<Rightarrow> world \<Rightarrow> jsval outcome \<times> world" where
  "promptPort L F config w =
     (case prompt ''Would you like to set a custom port? (y/n) [default: 3001]: '' w of
        (Pending, w1) \<Rightarrow> (Pending, w1)
      | (Threw e, w1) \<Rightarrow> (Threw e, w1)
      | (Returned changePort, w1) \<Rightarrow>
          if is_y changePort then
            (case prompt ''Enter custom port number: '' w1 of
               (Pending, w2) \<Rightarrow> (Pending, w2)
             | (Threw e, w2) \<Rightarrow> (Threw e, w2)
             | (Returned customPort, w2) \<Rightarrow>
                 (let portNumber = parseInt (units customPort) in
                  if isNaN portNumber then
                    (Returned (Num 3001),
                     emit (Console ''Invalid port number. Using default port 3001'' []) w2)
                  else if js_less portNumber 1 \<or> js_greater portNumber 65535 then
                    (Returned (Num 3001),
                     emit (Console ''Port must be between 1 and 65535. Using default port 3001'' []) w2)
                  else
                    (case set_prop config ''port'' portNumber of
                       Inl e \<Rightarrow> (Threw e, w2)
                     | Inr config' \<Rightarrow>
                         (case save_config (save_fault F) L config' w2 of
                            (Inl msg, w3) \<Rightarrow>
                              (Returned portNumber,
                               emit (Console ''Could not save port configuration:'' [Str msg]) w3)
                          | (Inr _, w3) \<Rightarrow>
                              (Returned portNumber,
                               emit (Console ''Custom port saved to config.json'' [portNumber]) w3)))))
          else defaultPort w1)"

text \<open>
  Step 2 and what follows it. The \<^verbatim>\<open>try\<close> block holds the read, the parse and the
  test of \<^verbatim>\<open>config.port\<close>; \<^verbatim>\<open>config\<close> keeps the parsed value when only the test
  throws.
\<close>

definition portFromFile :: "lib \<Rightarrow> world \<Rightarrow> (jsval \<times> jsval option) \<times> world" where
  "portFromFile L w =
     (let (ex, w1) = config_exists L w in
      if ex then
        (case read_config L w1 of
           (Inl msg, w2) \<Rightarrow>
             ((Obj [], None), emit (Console ''Error reading config file:'' [Str msg]) w2)
         | (Inr config, w2) \<Rightarrow>
             (case get_prop config ''port'' of
                Inl e \<Rightarrow>
                  ((config, None), emit (Console ''Error reading config file:'' [Str (emessage e)]) w2)
              | Inr port \<Rightarrow>
                  if truthy port
                  then ((config, Some port), emit (Console ''Using port from config.json'' [port]) w2)
                  else ((config, None), w2)))
      else ((Obj [], None), w1))"

definition getPortConfiguration ::
  "lib \<Rightarrow> environment \<Rightarrow> faults \<Rightarrow> world \<Rightarrow> jsval outcome \<times> world" where
  "getPortConfiguration L E F w =
     (if env_truthy (PORT E) then
        (Returned (parseInt (case PORT E of None \<Rightarrow> [] | Some s \<Rightarrow> s)),
         emit (Console ''Using port from .env file''
                 [case PORT E of None \<Rightarrow> Undefined | Some s \<Rightarrow> Text s]) w)
      else
        (case portFromFile L w of
           ((config, Some port), w1) \<Rightarrow> (Returned port, w1)
         | ((config, None), w1) \<Rightarrow>
             if pkg E then promptPort L F config w1 else defaultPort w1))"

subsection \<open>getDbConfig\<close>

text \<open>
  The last step: the four questions, then whether to save. Each of the four has a
  \<^verbatim>\<open>.catch\<close> that turns a rejected question into a ConfigurationError of its own;
  the fifth has none, and neither has the write that follows it.
\<close>

definition promptDbConfig :: "lib \<Rightarrow> faults \<Rightarrow> world \<Rightarrow> jsval outcome \<times> world" where
  "promptDbConfig L F w =
     (case prompt ''Username: ''
             (emit (Console ''Please enter your SQL Server credentials:'' [])
                (emit (Console ''=== Database Configuration Setup ==='' []) w)) of
        (Pending, w1) \<Rightarrow> (Pending, w1)
      | (Threw e, w1) \<Rightarrow>
          (Threw (Exn ''ConfigurationError'' ''Username prompt failed or timed out''), w1)
      | (Returned dbUser, w1) \<Rightarrow>
     (case prompt ''Password: '' w1 of
        (Pending, w2) \<Rightarrow> (Pending, w2)
      | (Threw e, w2) \<Rightarrow>
          (Threw (Exn ''ConfigurationError'' ''Password prompt failed or timed out''), w2)
      | (Returned dbPassword, w2) \<Rightarrow>
     (case prompt (''Server (e.g. localhost'' @ [CHR 0x5C] @ ''SQLEXPRESS): '') w2 of
        (Pending, w3) \<Rightarrow> (Pending, w3)
      | (Threw e, w3) \<Rightarrow>
          (Threw (Exn ''ConfigurationError'' ''Server prompt failed or timed out''), w3)
      | (Returned dbServer, w3) \<Rightarrow>
     (case prompt ''Database name: '' w3 of
        (Pending, w4) \<Rightarrow> (Pending, w4)
      | (Threw e, w4) \<Rightarrow>
          (Threw (Exn ''ConfigurationError'' ''Database name prompt failed or timed out''), w4)
      | (Returned dbName, w4) \<Rightarrow>
     (let config = Obj [(''user'', Str dbUser), (''password'', Str dbPassword),
                        (''server'', Str dbServer), (''database'', Str dbName)] in
      case prompt ''Save this configuration for future use? (y/n): '' w4 of
        (Pending, w5) \<Rightarrow> (Pending, w5)
      | (Threw e, w5) \<Rightarrow> (Threw e, w5)
      | (Returned saveConfig, w5) \<Rightarrow>
          if is_y saveConfig then
            (case save_config (save_fault F) L config w5 of
               (Inl msg, w6) \<Rightarrow> (Threw (Exn ''Error'' msg), w6)
             | (Inr _, w6) \<Rightarrow>
                 (Returned config, emit (Console ''Configuration saved to config.json'' []) w6))
          else (Returned config, w5))))))"

text \<open>The second step, and the third when it does not apply.\<close>

definition dbConfigFromEnv :: "lib \<Rightarrow> environment \<Rightarrow> faults \<Rightarrow> world \<Rightarrow> jsval outcome \<times> world" where
  "dbConfigFromEnv L E F w =
     (if env_truthy (DB_USER E) \<and> env_truthy (DB_PASSWORD E) \<and> env_truthy (DB_SERVER E)
         \<and> env_truthy (DB_NAME E) then
        (let config = Obj [(''user'', env_value (DB_USER E)), (''password'', env_value (DB_PASSWORD E)),
                           (''server'', env_value (DB_SERVER E)), (''database'', env_value (DB_NAME E))] in
         case save_config (save_fault F) L config w of
           (Inl msg, w1) \<Rightarrow>
             (Returned config, emit (Console ''Warning: Could not save config file:'' [Str msg]) w1)
         | (Inr _, w1) \<Rightarrow> (Returned config, w1))
      else promptDbConfig L F w)"

definition getDbConfig :: "lib \<Rightarrow> environment \<Rightarrow> faults \<Rightarrow> world \<Rightarrow> jsval outcome \<times> world" where
  "getDbConfig L E F w =
     (let (ex, w1) = config_exists L w in
      if ex then
        (case read_config L w1 of
           (Inr config, w2) \<Rightarrow> (Returned config, w2)
         | (Inl msg, w2) \<Rightarrow>
             dbConfigFromEnv L E F (emit (Console ''Error reading config file:'' [Str msg]) w2))
      else dbConfigFromEnv L E F w1)"

subsection \<open>initializeServer\<close>

text \<open>
  How \<^verbatim>\<open>initializeServer\<close> ends: it has opened the listener on a port; it has returned
  with no listener opened; it has not returned, a question being left without answer;
  or it has called \<^verbatim>\<open>process.exit(code)\<close>. The only \<^verbatim>\<open>process.exit\<close> of the program
  is in the handler of a second interrupt signal, so the startup never ends the last
  way. What becomes of the process after the function has returned is outside this
  model.
\<close>

datatype proc_status = Listening jsval | NoListener | AwaitingInput | Exited int

text \<open>
  The \<^verbatim>\<open>catch\<close> block of \<^verbatim>\<open>initializeServer\<close>: one fixed line is logged. The
  \<^verbatim>\<open>poolConnection\<close> it tests is the outer variable, still \<^verbatim>\<open>null\<close>, so nothing
  is closed. The function then returns normally.
\<close>

definition initFailed :: "world \<Rightarrow> proc_status \<times> world" where
  "initFailed w = (NoListener, emit (Console ''Server initialization failed:'' []) w)"

definition startListening :: "faults \<Rightarrow> jsval \<Rightarrow> world \<Rightarrow> proc_status \<times> world" where
  "startListening F port w =
     (let w1 = emit (Listen port) w in
      case listen F of
        ListenThrows e \<Rightarrow> initFailed w1
      | ListenError code \<Rightarrow>
          (NoListener,
           emit (if code = ''EADDRINUSE'' then Console ''Port is already in use'' [port]
                 else Console ''Server error:'' [Str code]) w1)
      | ListenOk \<Rightarrow>
          (Listening port,
           emit (Console ''Upload directory:'' [])
             (emit (Console ''Server listening at http://localhost:'' [port]) w1)))"

definition initializeServer :: "lib \<Rightarrow> environment \<Rightarrow> faults \<Rightarrow> world \<Rightarrow> proc_status \<times> world" where
  "initializeServer L E F w =
     (case getDbConfig L E F w of
        (Pending, w1) \<Rightarrow> (AwaitingInput, w1)
      | (Threw e, w1) \<Rightarrow> initFailed w1
      | (Returned dbConfig, w1) \<Rightarrow>
          (case validateDbConfig dbConfig of
             Inl e \<Rightarrow> initFailed w1
           | Inr _ \<Rightarrow>
               (let w2 = emit DbConnect (emit (Console ''Connecting to database...'' []) w1) in
                case connect_fault F of
                  Some msg \<Rightarrow> initFailed w2
                | None \<Rightarrow>
                    (case checkAndCreateTable F (emit (Console ''Connected to SQL Server'' []) w2) of
                       (Inl e, w3) \<Rightarrow> initFailed w3
                     | (Inr _, w3) \<Rightarrow>
                         (case getPortConfiguration L E F w3 of
                            (Pending, w4) \<Rightarrow> (AwaitingInput, w4)
                          | (Threw e, w4) \<Rightarrow> initFailed w4
                          | (Returned port, w4) \<Rightarrow> startListening F port w4)))))"

section \<open>What the questions give\<close>

text \<open>
  The outcome of the five questions of the database configuration, read off the replies
  alone. It is shown below to be what \<open>promptDbConfig\<close> returns.
\<close>

fun answered :: "faults \<Rightarrow> reply list \<Rightarrow> jsval outcome" where
  "answered F (Line u # Line p # Line s # Line d # Line y # _) =
     (if is_y y \<and> save_fault F \<noteq> None
      then Threw (Exn ''Error'' (case save_fault F of None \<Rightarrow> [] | Some m \<Rightarrow> m))
      else Returned (Obj [(''user'', Str u), (''password'', Str p), (''server'', Str s),
                          (''database'', Str d)]))"
| "answered F (Line u # Line p # Line s # Line d # Closed # _) =
     Threw (Exn ''Error'' ''readline was closed'')"
| "answered F (Line u # Line p # Line s # Closed # _) =
     Threw (Exn ''ConfigurationError'' ''Database name prompt failed or timed out'')"
| "answered F (Line u # Line p # Closed # _) =
     Threw (Exn ''ConfigurationError'' ''Server prompt failed or timed out'')"
| "answered F (Line u # Closed # _) =
     Threw (Exn ''ConfigurationError'' ''Password prompt failed or timed out'')"
| "answered F (Closed # _) =
     Threw (Exn ''ConfigurationError'' ''Username prompt failed or timed out'')"
| "answered F _ = Pending"

section \<open>A small installation\<close>

text \<open>
  Concrete values for running the definitions: a working directory, path functions that
  concatenate, a parser's type that is the declared one up to its first semicolon, one
  stored image with its row, and a client's PNG.
\<close>

definition demo_lib :: lib where
  "demo_lib = \<lparr>baseDir = ''/srv'', resolve = (\<lambda>d p. d @ ''/'' @ p), join = (\<lambda>d p. d @ ''/'' @ p),
     extname = (\<lambda>name. dropWhile (\<lambda>c. c \<noteq> CHR ''.'') name),
     mimeType = (\<lambda>declared. takeWhile (\<lambda>c. c \<noteq> CHR '';'') declared)\<rparr>"

definition demo_table :: images_table where
  "demo_table =
     \<lparr>rows = [\<lparr>row_id = 1, image_path = ''/uploads/images/17-3.png'', upload_date = 17\<rparr>],
      next_identity = 2\<rparr>"

definition demo_world :: world where
  "demo_world = \<lparr>fs = [''/srv/uploads/images/17-3.png'' \<mapsto> File], config_file = NoFile,
     db = Some demo_table, clock = 42, stdin = [], trace = []\<rparr>"

definition demo_png :: file_part where
  "demo_png = \<lparr>fieldname = ''image'', originalname = ''cat.png'', contentType = ''image/png'',
     fsize = 2048\<rparr>"

definition demo_env :: environment where
  "demo_env = \<lparr>PORT = None, DB_USER = Some ''sa'', DB_PASSWORD = Some ''secret'',
     DB_SERVER = Some ''localhost'', DB_NAME = Some ''images'', pkg = False\<rparr>"

definition demo_config :: jsval where
  "demo_config = Obj [(''user'', Str ''sa''), (''password'', Str ''secret''),
     (''server'', Str ''localhost''), (''database'', Str ''images''), (''port'', Num 5000)]"

lemmas parse_defs =
  parseInt_def strip_sign_def strip_radix_def digit_of_def digits_value_def is_space_def
  round_double_def units_def

lemmas demo_defs =
  demo_lib_def demo_table_def demo_world_def demo_png_def demo_env_def demo_config_def
  no_faults_def

section \<open>Deleting an image\<close>

lemma find_filter_hd: "find P xs = Some r \<Longrightarrow> \<exists>ys. filter P xs = r # ys"
  by (induction xs) (auto split: if_splits)


lemma delete_200:
  assumes "parseInt idParam = Num n" and "db w = Some t"
    and "find (\<lambda>r. row_id r = n) (rows t) = Some r"
    and "deleteImage L F idParam w = (Response 200 body, w')"
  shows "fs w' (fullPathOf L (image_path r)) = None \<and>
         db w' = Some (t\<lparr>rows := filter (\<lambda>x. row_id x \<noteq> n) (rows t)\<rparr>)"
proof -
  obtain ys where ys: "filter (\<lambda>r. row_id r = n) (rows t) = r # ys"
    using find_filter_hd [OF assms(3)] by blast
  show ?thesis
    using assms(1,2,4) ys
    by (auto simp add: deleteImage_def db_query_def existsSync_def unlinkSync_def emit_def
        deleteFailed_def Let_def
        split: option.splits sum.splits prod.splits if_splits fs_node.splits)
qed

lemma delete_file_absent:
  assumes "parseInt idParam = Num n" and "db w = Some t"
    and "find (\<lambda>r. row_id r = n) (rows t) = Some r"
    and "fs w (fullPathOf L (image_path r)) = None"
    and "select_fault F = None" and "delete_fault F = None"
  shows "deleteImage L F idParam w =
     (Response 200 (Obj [(''message'', Str ''Image deleted'')]),
      w\<lparr>db := Some (t\<lparr>rows := filter (\<lambda>x. row_id x \<noteq> n) (rows t)\<rparr>),
        trace := trace w @
          [DbQuery (SelectPathById (Num n)), FsExists (fullPathOf L (image_path r)),
           Console (''File not found: '' @ fullPathOf L (image_path r)) [],
           DbQuery (DeleteById (Num n))]\<rparr>)"
proof -
  obtain ys where ys: "filter (\<lambda>r. row_id r = n) (rows t) = r # ys"
    using find_filter_hd [OF assms(3)] by blast
  show ?thesis
    using assms(1,2,4,5,6) ys
    by (simp add: deleteImage_def db_query_def existsSync_def emit_def Let_def)
qed

lemma listing_after:
  assumes "db w' = Some (t\<lparr>rows := filter (\<lambda>x. row_id x \<noteq> n) (rows t)\<rparr>)"
    and "listImages F' w' = (Response 200 (Arr rs), w'')"
  shows "\<forall>x \<in> set rs. get_prop x ''id'' \<noteq> Inr (Num n)"
  using assms
  by (auto simp add: listImages_def db_query_def emit_def row_json_def Let_def
      split: option.splits)

text \<open>
  \<^verbatim>\<open>parseInt\<close> reads \<^verbatim>\<open>NaN\<close> exactly when, after the leading white space, the
  optional sign and the optional \<^verbatim>\<open>0x\<close>, nothing is left or what comes first is no
  digit of the radix.
\<close>

lemma digits_prefix_Nil:
  "digits_prefix r v = [] \<longleftrightarrow>
     (case v of [] \<Rightarrow> True
      | c # _ \<Rightarrow> (case digit_of c of None \<Rightarrow> True | Some d \<Rightarrow> r \<le> d))"
  by (cases v) (auto split: option.splits)

lemma parseInt_NaN:
  "parseInt s = NaN \<longleftrightarrow>
     (case strip_radix (snd (strip_sign (dropWhile is_space s))) of
        (r, v) \<Rightarrow> digits_prefix r v = [])"
  by (simp add: parseInt_def Let_def split: prod.splits option.splits)

theorem delete_unparsable_id_rejected:
  "(parseInt idParam = NaN \<longrightarrow>
      deleteImage L F idParam w = (Response 400 (Obj [(''error'', Str ''Invalid ID format'')]), w))
   \<and> (parseInt idParam = NaN \<longleftrightarrow>
        (case strip_radix (snd (strip_sign (dropWhile is_space idParam))) of
           (r, []) \<Rightarrow> True
         | (r, c # _) \<Rightarrow> (case digit_of c of None \<Rightarrow> True | Some d \<Rightarrow> r \<le> d)))"
proof
  show "parseInt idParam = NaN \<longrightarrow>
      deleteImage L F idParam w = (Response 400 (Obj [(''error'', Str ''Invalid ID format'')]), w)"
    by (simp add: deleteImage_def)
  show "parseInt idParam = NaN \<longleftrightarrow>
        (case strip_radix (snd (strip_sign (dropWhile is_space idParam))) of
           (r, []) \<Rightarrow> True
         | (r, c # _) \<Rightarrow> (case digit_of c of None \<Rightarrow> True | Some d \<Rightarrow> r \<le> d))"
    unfolding parseInt_NaN
    by (simp add: digits_prefix_Nil split: prod.splits list.splits)
qed

theorem delete_unparsable_id_rejected_witness:
  "parseInt (units ''invalid'') = NaN \<and>
   deleteImage demo_lib no_faults (units ''invalid'') demo_world =
     (Response 400 (Obj [(''error'', Str ''Invalid ID format'')]), demo_world)
   \<and> parseInt (units ''0x'') = NaN"
proof -
  have h: "parseInt (units ''invalid'') = NaN"
    by (simp add: parse_defs)
  have g: "case strip_radix (snd (strip_sign (dropWhile is_space (units ''0x'')))) of
           (r, []) \<Rightarrow> True
         | (r, c # _) \<Rightarrow> (case digit_of c of None \<Rightarrow> True | Some d \<Rightarrow> r \<le> d)"
    by (simp add: parse_defs)
  note t = delete_unparsable_id_rejected [of "units ''invalid''" demo_lib no_faults demo_world]
  note u = delete_unparsable_id_rejected [of "units ''0x''" demo_lib no_faults demo_world]
  from h t [THEN conjunct1, rule_format, OF h] u [THEN conjunct2, THEN iffD2, OF g]
  show ?thesis by simp
qed

text \<open>
  The claim as written fails at the identifier \<^verbatim>\<open>-5\<close>, which is no positive
  integer: it passes the check, the lookup is sent, and the answer is 404. It fails too
  at \<^verbatim>\<open>1abc\<close>, which is read as 1: the image with id 1 is deleted.
\<close>

theorem delete_negative_id_reaches_database:
  "deleteImage demo_lib no_faults (units ''-5'') demo_world =
     (Response 404 (Obj [(''error'', Str ''Image not found'')]),
      demo_world\<lparr>trace := [DbQuery (SelectPathById (Num (- 5)))]\<rparr>)
   \<and> deleteImage demo_lib no_faults (units ''1abc'') demo_world =
     (Response 200 (Obj [(''message'', Str ''Image deleted'')]),
      demo_world\<lparr>fs := Map.empty, db := Some \<lparr>rows = [], next_identity = 2\<rparr>,
        trace := [DbQuery (SelectPathById (Num 1)), FsExists ''/srv/uploads/images/17-3.png'',
                  FsUnlink ''/srv/uploads/images/17-3.png'', DbQuery (DeleteById (Num 1))]\<rparr>)"
proof -
  have a: "parseInt (units ''-5'') = Num (- 5)" and b: "parseInt (units ''1abc'') = Num 1"
    by (simp_all add: parse_defs)
  show ?thesis
    by (simp add: deleteImage_def a b db_query_def existsSync_def unlinkSync_def emit_def
        fullPathOf_def demo_defs Let_def)
qed

text \<open>
  C7. When the deletion of an existing id answers 200, the row is gone from the table,
  so no later listing returns a row with that id, and nothing is on disk at the path of
  the row's file. When nothing was at that path to begin with and the two statements
  succeed, the deletion still answers 200 and removes the row.
\<close>

theorem delete_success_removes_row_and_file:
  assumes "parseInt idParam = Num n" and "db w = Some t"
    and "find (\<lambda>r. row_id r = n) (rows t) = Some r"
  shows "(deleteImage L F idParam w = (Response 200 body, w') \<longrightarrow>
            fs w' (fullPathOf L (image_path r)) = None \<and>
            db w' = Some (t\<lparr>rows := filter (\<lambda>x. row_id x \<noteq> n) (rows t)\<rparr>) \<and>
            (\<forall>F' rs w''. listImages F' w' = (Response 200 (Arr rs), w'') \<longrightarrow>
               (\<forall>x \<in> set rs. get_prop x ''id'' \<noteq> Inr (Num n))))
       \<and> (fs w (fullPathOf L (image_path r)) = None \<and> select_fault F = None \<and> delete_fault F = None \<longrightarrow>
            fst (deleteImage L F idParam w) = Response 200 (Obj [(''message'', Str ''Image deleted'')]) \<and>
            db (snd (deleteImage L F idParam w)) =
              Some (t\<lparr>rows := filter (\<lambda>x. row_id x \<noteq> n) (rows t)\<rparr>) \<and>
            fs (snd (deleteImage L F idParam w)) = fs w)"
proof (intro conjI impI)
  assume ok: "deleteImage L F idParam w = (Response 200 body, w')"
  note d = delete_200 [OF assms ok]
  show "fs w' (fullPathOf L (image_path r)) = None" using d by simp
  show "db w' = Some (t\<lparr>rows := filter (\<lambda>x. row_id x \<noteq> n) (rows t)\<rparr>)" using d by simp
  then show "\<forall>F' rs w''. listImages F' w' = (Response 200 (Arr rs), w'') \<longrightarrow>
               (\<forall>x \<in> set rs. get_prop x ''id'' \<noteq> Inr (Num n))"
    using listing_after by blast
next
  assume a: "fs w (fullPathOf L (image_path r)) = None \<and> select_fault F = None \<and> delete_fault F = None"
  then have e: "deleteImage L F idParam w =
     (Response 200 (Obj [(''message'', Str ''Image deleted'')]),
      w\<lparr>db := Some (t\<lparr>rows := filter (\<lambda>x. row_id x \<noteq> n) (rows t)\<rparr>),
        trace := trace w @
          [DbQuery (SelectPathById (Num n)), FsExists (fullPathOf L (image_path r)),
           Console (''File not found: '' @ fullPathOf L (image_path r)) [],
           DbQuery (DeleteById (Num n))]\<rparr>)"
    using delete_file_absent [OF assms] by blast
  show "fst (deleteImage L F idParam w) = Response 200 (Obj [(''message'', Str ''Image deleted'')])"
    by (simp add: e)
  show "db (snd (deleteImage L F idParam w)) =
          Some (t\<lparr>rows := filter (\<lambda>x. row_id x \<noteq> n) (rows t)\<rparr>)"
    by (simp add: e)
  show "fs (snd (deleteImage L F idParam w)) = fs w"
    by (simp add: e)
qed

theorem delete_success_removes_row_and_file_witness:
  "fs (snd (deleteImage demo_lib no_faults (units ''1'') demo_world)) ''/srv/uploads/images/17-3.png'' = None
   \<and> db (snd (deleteImage demo_lib no_faults (units ''1'') demo_world)) = Some \<lparr>rows = [], next_identity = 2\<rparr>
   \<and> fst (deleteImage demo_lib no_faults (units ''1'') (demo_world\<lparr>fs := Map.empty\<rparr>)) =
       Response 200 (Obj [(''message'', Str ''Image deleted'')])
   \<and> db (snd (deleteImage demo_lib no_faults (units ''1'') (demo_world\<lparr>fs := Map.empty\<rparr>))) =
       Some \<lparr>rows = [], next_identity = 2\<rparr>"
proof -
  let ?r = "\<lparr>row_id = 1, image_path = ''/uploads/images/17-3.png'', upload_date = 17\<rparr>"
  let ?w' = "snd (deleteImage demo_lib no_faults (units ''1'') demo_world)"
  let ?body = "Obj [(''message'', Str ''Image deleted'')]"
  have p: "parseInt (units ''1'') = Num 1"
    by (simp add: parse_defs)
  have d: "db demo_world = Some demo_table"
    by (simp add: demo_defs)
  have f: "find (\<lambda>r. row_id r = 1) (rows demo_table) = Some ?r"
    by (simp add: demo_defs)
  have path: "fullPathOf demo_lib ''/uploads/images/17-3.png'' = ''/srv/uploads/images/17-3.png''"
    by (simp add: fullPathOf_def demo_defs)
  have "fst (deleteImage demo_lib no_faults (units ''1'') demo_world) = Response 200 ?body"
    by (simp add: deleteImage_def p db_query_def existsSync_def unlinkSync_def emit_def
        fullPathOf_def demo_defs Let_def)
  then have run: "deleteImage demo_lib no_faults (units ''1'') demo_world = (Response 200 ?body, ?w')"
    by (simp add: prod_eq_iff)
  have d0: "db (demo_world\<lparr>fs := Map.empty\<rparr>) = Some demo_table"
    by (simp add: demo_defs)
  have absent: "fs (demo_world\<lparr>fs := Map.empty\<rparr>) (fullPathOf demo_lib (image_path ?r)) = None
      \<and> select_fault no_faults = None \<and> delete_fault no_faults = None"
    by (simp add: no_faults_def)
  have rows: "demo_table\<lparr>rows := filter (\<lambda>x. row_id x \<noteq> 1) (rows demo_table)\<rparr>
      = \<lparr>rows = [], next_identity = 2\<rparr>"
    by (simp add: demo_defs)
  note t1 = delete_success_removes_row_and_file [OF p d f, of demo_lib no_faults ?body ?w',
      THEN conjunct1, rule_format, OF run]
  note t2 = delete_success_removes_row_and_file [OF p d0 f, of demo_lib no_faults,
      THEN conjunct2, rule_format, OF absent]
  from t1 t2 show ?thesis
    by (simp add: path rows)
qed



section \<open>Uploading an image\<close>

lemma decimal_42: "decimal 42 = ''42''"
  by (simp add: decimal.simps digit_char_def)

lemma decimal_7: "decimal 7 = ''7''"
  by (simp add: decimal.simps digit_char_def)

lemmas upload_defs =
  postUpload_def upload_single_def uploadHandler_def errorMiddleware_def fileFilter_def
  fileSize_def uniqueName_def imageUploadDirectory_def db_query_def unlinkSync_def emit_def

lemma upload_stored_and_inserted:
  assumes "originalname file \<noteq> []" and "fieldname file = ''image''"
    and "fileFilter (mimeType L (contentType file))" and "fsize file < fileSize"
    and "write_fault F = None" and "insert_fault F = None" and "db w = Some t"
    and "name = uniqueName L (clock w) rnd file"
    and "p = join L (imageUploadDirectory L) name"
  shows "postUpload L F rnd (Some file) w =
      (Response 200 (Obj [(''message'', Str ''Image uploaded successfully''),
                          (''path'', Str (''/uploads/images/'' @ name)),
                          (''filename'', Str name)]),
       w\<lparr>fs := (fs w)(p \<mapsto> File),
         db := Some (t\<lparr>rows := rows t @ [\<lparr>row_id = next_identity t,
                                            image_path = ''/uploads/images/'' @ name,
                                            upload_date = clock w\<rparr>],
                       next_identity := next_identity t + 1\<rparr>),
         trace := trace w @ [FsWriteFile p, DbQuery (InsertImage (''/uploads/images/'' @ name))]\<rparr>)"
  using assms
  by (simp add: postUpload_def upload_single_def uploadHandler_def db_query_def emit_def Let_def)

text \<open>
  The rollback when the \<^verbatim>\<open>unlinkSync\<close> succeeds: the answer is 500 ``DB insert
  failed'' and nothing is left at the path the file was written to.
\<close>

lemma upload_insert_failure_rollback:
  assumes "originalname file \<noteq> []" and "fieldname file = ''image''"
    and "fileFilter (mimeType L (contentType file))" and "fsize file < fileSize"
    and "write_fault F = None" and "insert_fault F = Some msg \<or> db w = None"
    and "unlink_fault F = None"
    and "name = uniqueName L (clock w) rnd file"
    and "p = join L (imageUploadDirectory L) name"
  shows "\<exists>details. postUpload L F rnd (Some file) w =
      (Response 500 (Obj [(''error'', Str ''DB insert failed''), (''details'', Str details)]),
       w\<lparr>fs := (fs w)(p := None),
         trace := trace w @ [FsWriteFile p, DbQuery (InsertImage (''/uploads/images/'' @ name)),
                             FsUnlink p]\<rparr>)"
  using assms
  by (auto simp add: postUpload_def upload_single_def uploadHandler_def db_query_def emit_def
      unlinkSync_def Let_def split: option.splits)

text \<open>
  C1. The upload of \<open>demo_png\<close> when the insert fails and the \<^verbatim>\<open>unlinkSync\<close> of
  the rollback throws as well: the handler's promise rejects, so no response is sent;
  nothing is logged; the file written for the request is still on disk.
\<close>

theorem upload_rollback_unlink_throws:
  "postUpload demo_lib
     (no_faults\<lparr>insert_fault := Some ''Connection lost'', unlink_fault := Some ''EBUSY''\<rparr>)
     7 (Some demo_png) demo_world =
   (Unhandled (Exn ''Error'' ''EBUSY''),
    demo_world\<lparr>fs := (fs demo_world)(''/srv/uploads/images/42-7.png'' \<mapsto> File),
      trace := [FsWriteFile ''/srv/uploads/images/42-7.png'',
                DbQuery (InsertImage ''/uploads/images/42-7.png''),
                FsUnlink ''/srv/uploads/images/42-7.png'']\<rparr>)"
  by (simp add: upload_defs demo_defs decimal_42 decimal_7 Let_def)

text \<open>
  C3. A successful upload (a named file in the field \<^verbatim>\<open>image\<close>, of an allowed type,
  below the size limit, written to disk, its row inserted) is answered with 200 and a body of
  exactly three properties: the message, the stored path and the filename, the path
  being \<^verbatim>\<open>/uploads/images/\<close> followed by the filename. The row gets the table's next
  identity value; the body has no \<^verbatim>\<open>id\<close>.
\<close>

theorem upload_success_reports_path_and_filename:
  assumes "originalname file \<noteq> []" and "fieldname file = ''image''"
    and "fileFilter (mimeType L (contentType file))" and "fsize file < fileSize"
    and "write_fault F = None" and "insert_fault F = None" and "db w = Some t"
    and "name = uniqueName L (clock w) rnd file"
  shows "(\<exists>body. fst (postUpload L F rnd (Some file) w) = Response 200 body
            \<and> body = Obj [(''message'', Str ''Image uploaded successfully''),
                          (''path'', Str (''/uploads/images/'' @ name)),
                          (''filename'', Str name)]
            \<and> get_prop body ''id'' = Inr Undefined)
         \<and> db (snd (postUpload L F rnd (Some file) w)) =
             Some (t\<lparr>rows := rows t @ [\<lparr>row_id = next_identity t,
                                        image_path = ''/uploads/images/'' @ name,
                                        upload_date = clock w\<rparr>],
                     next_identity := next_identity t + 1\<rparr>)
         \<and> fs (snd (postUpload L F rnd (Some file) w)) =
             (fs w)(join L (imageUploadDirectory L) name \<mapsto> File)"
  using upload_stored_and_inserted [OF assms refl] by simp

theorem upload_success_reports_path_and_filename_witness:
  "fst (postUpload demo_lib no_faults 7 (Some demo_png) demo_world) =
     Response 200 (Obj [(''message'', Str ''Image uploaded successfully''),
                        (''path'', Str ''/uploads/images/42-7.png''),
                        (''filename'', Str ''42-7.png'')])
   \<and> db (snd (postUpload demo_lib no_faults 7 (Some demo_png) demo_world)) =
     Some \<lparr>rows = [\<lparr>row_id = 1, image_path = ''/uploads/images/17-3.png'', upload_date = 17\<rparr>,
                   \<lparr>row_id = 2, image_path = ''/uploads/images/42-7.png'', upload_date = 42\<rparr>],
           next_identity = 3\<rparr>"
proof -
  have a: "originalname demo_png \<noteq> []" "fieldname demo_png = ''image''"
    "fileFilter (mimeType demo_lib (contentType demo_png))" "fsize demo_png < fileSize"
    by (simp_all add: demo_defs fileFilter_def fileSize_def)
  have b: "write_fault no_faults = None" "insert_fault no_faults = None"
    by (simp_all add: no_faults_def)
  have d: "db demo_world = Some demo_table"
    by (simp add: demo_defs)
  have n: "''42-7.png'' = uniqueName demo_lib (clock demo_world) 7 demo_png"
    by (simp add: uniqueName_def demo_defs decimal_42 decimal_7)
  from upload_success_reports_path_and_filename [OF a b d n]
  show ?thesis by (simp add: demo_defs)
qed

text \<open>
  The claim as written fails on that upload: the row is given id 2, and the body of the
  response has no \<^verbatim>\<open>id\<close> property.
\<close>

theorem upload_response_without_id:
  "fst (postUpload demo_lib no_faults 7 (Some demo_png) demo_world) =
     Response 200 (Obj [(''message'', Str ''Image uploaded successfully''),
                        (''path'', Str ''/uploads/images/42-7.png''),
                        (''filename'', Str ''42-7.png'')])
   \<and> get_prop (Obj [(''message'', Str ''Image uploaded successfully''),
                    (''path'', Str ''/uploads/images/42-7.png''),
                    (''filename'', Str ''42-7.png'')]) ''id'' = Inr Undefined
   \<and> map row_id (case db (snd (postUpload demo_lib no_faults 7 (Some demo_png) demo_world)) of
                    None \<Rightarrow> [] | Some t \<Rightarrow> rows t) = [1, 2]"
  by (simp add: upload_defs demo_defs decimal_42 decimal_7 Let_def)

text \<open>
  C6. A request with no file, and a request whose file in the field \<^verbatim>\<open>image\<close> has a
  type (\<^verbatim>\<open>file.mimetype\<close>, what the parser makes of the declared one) other than
  \<^verbatim>\<open>image/jpeg\<close>, \<^verbatim>\<open>image/png\<close>, \<^verbatim>\<open>image/gif\<close>, are answered with 400 ``No file
  uploaded'' and nothing else happens: nothing is written to disk, no statement is sent.
  A named file in that field, of an allowed type, of 5 MiB or more, whose write
  succeeds, is answered with 500 ``File too large'' by the error middleware: what was
  written for it is removed again, and no statement is sent. Whatever the reason for
  which the upload middleware hands on no stored file (no file, no file name, a file in
  another field, a refused type, 5 MiB or more, a failed write), the answer is 400 or
  500, the database is as it was and no statement has been sent.
\<close>

theorem upload_rejected_before_database:
  "(part = None \<or> (\<exists>file. part = Some file \<and> fieldname file = ''image''
        \<and> mimeType L (contentType file) \<notin> {''image/jpeg'', ''image/png'', ''image/gif''})
      \<longrightarrow> postUpload L F rnd part w =
            (Response 400 (Obj [(''error'', Str ''No file uploaded'')]), w))
   \<and> (\<forall>file p. part = Some file \<and> originalname file \<noteq> [] \<and> fieldname file = ''image''
        \<and> mimeType L (contentType file) \<in> {''image/jpeg'', ''image/png'', ''image/gif''}
        \<and> fsize file \<ge> 5 * 1024 * 1024 \<and> write_fault F = None
        \<and> p = join L (imageUploadDirectory L) (uniqueName L (clock w) rnd file)
      \<longrightarrow> postUpload L F rnd part w =
            (Response 500 (Obj [(''error'', Str ''File too large'')]),
             w\<lparr>fs := (fs w)(p := None),
               trace := trace w @ [FsWriteFile p, FsUnlink p,
                 Console ''Unhandled error:'' [Str ''MulterError'', Str ''File too large'']]\<rparr>))
   \<and> (part = None \<or> (\<exists>file. part = Some file \<and>
          (originalname file = [] \<or> fieldname file \<noteq> ''image''
           \<or> mimeType L (contentType file) \<notin> {''image/jpeg'', ''image/png'', ''image/gif''}
           \<or> fsize file \<ge> 5 * 1024 * 1024 \<or> write_fault F \<noteq> None))
      \<longrightarrow> (\<exists>body. fst (postUpload L F rnd part w) = Response 400 body
                  \<or> fst (postUpload L F rnd part w) = Response 500 body)
          \<and> db (snd (postUpload L F rnd part w)) = db w
          \<and> (\<forall>q. DbQuery q \<notin> set (drop (length (trace w)) (trace (snd (postUpload L F rnd part w))))))"
proof (intro conjI allI impI)
  assume "part = None \<or> (\<exists>file. part = Some file \<and> fieldname file = ''image''
        \<and> mimeType L (contentType file) \<notin> {''image/jpeg'', ''image/png'', ''image/gif''})"
  then show "postUpload L F rnd part w =
            (Response 400 (Obj [(''error'', Str ''No file uploaded'')]), w)"
    by (auto simp add: postUpload_def upload_single_def uploadHandler_def fileFilter_def)
next
  fix upl p
  assume "part = Some upl \<and> originalname upl \<noteq> [] \<and> fieldname upl = ''image''
        \<and> mimeType L (contentType upl) \<in> {''image/jpeg'', ''image/png'', ''image/gif''}
        \<and> fsize upl \<ge> 5 * 1024 * 1024 \<and> write_fault F = None
        \<and> p = join L (imageUploadDirectory L) (uniqueName L (clock w) rnd upl)"
  then show "postUpload L F rnd part w =
            (Response 500 (Obj [(''error'', Str ''File too large'')]),
             w\<lparr>fs := (fs w)(p := None),
               trace := trace w @ [FsWriteFile p, FsUnlink p,
                 Console ''Unhandled error:'' [Str ''MulterError'', Str ''File too large'']]\<rparr>)"
    by (auto simp add: postUpload_def upload_single_def uploadHandler_def errorMiddleware_def
        fileFilter_def fileSize_def emit_def Let_def)
next
  assume r: "part = None \<or> (\<exists>file. part = Some file \<and>
          (originalname file = [] \<or> fieldname file \<noteq> ''image''
           \<or> mimeType L (contentType file) \<notin> {''image/jpeg'', ''image/png'', ''image/gif''}
           \<or> fsize file \<ge> 5 * 1024 * 1024 \<or> write_fault F \<noteq> None))"
  have "(\<exists>body. fst (postUpload L F rnd part w) = Response 400 body
                  \<or> fst (postUpload L F rnd part w) = Response 500 body)
          \<and> db (snd (postUpload L F rnd part w)) = db w
          \<and> (\<forall>q. DbQuery q \<notin> set (drop (length (trace w)) (trace (snd (postUpload L F rnd part w)))))"
  proof (cases part)
    case None
    then show ?thesis
      by (simp add: postUpload_def upload_single_def uploadHandler_def)
  next
    case (Some upl)
    then have "originalname upl = [] \<or> fieldname upl \<noteq> ''image''
        \<or> \<not> fileFilter (mimeType L (contentType upl))
        \<or> fsize upl \<ge> fileSize \<or> write_fault F \<noteq> None"
      using r by (auto simp add: fileFilter_def fileSize_def)
    then show ?thesis
      using Some
      by (cases "write_fault F")
         (auto simp add: postUpload_def upload_single_def uploadHandler_def errorMiddleware_def
            emit_def Let_def)
  qed
  then show "\<exists>body. fst (postUpload L F rnd part w) = Response 400 body
                  \<or> fst (postUpload L F rnd part w) = Response 500 body"
    and "db (snd (postUpload L F rnd part w)) = db w"
    and "\<And>q. DbQuery q \<notin> set (drop (length (trace w)) (trace (snd (postUpload L F rnd part w))))"
    by blast+
qed

theorem upload_rejected_before_database_witness:
  "postUpload demo_lib no_faults 7 None demo_world =
     (Response 400 (Obj [(''error'', Str ''No file uploaded'')]), demo_world)
   \<and> postUpload demo_lib no_faults 7 (Some (demo_png\<lparr>contentType := ''text/plain''\<rparr>)) demo_world =
     (Response 400 (Obj [(''error'', Str ''No file uploaded'')]), demo_world)
   \<and> postUpload demo_lib no_faults 7 (Some (demo_png\<lparr>fsize := 5242880\<rparr>)) demo_world =
     (Response 500 (Obj [(''error'', Str ''File too large'')]),
      demo_world\<lparr>fs := (fs demo_world)(''/srv/uploads/images/42-7.png'' := None),
        trace := trace demo_world @
          [FsWriteFile ''/srv/uploads/images/42-7.png'', FsUnlink ''/srv/uploads/images/42-7.png'',
           Console ''Unhandled error:'' [Str ''MulterError'', Str ''File too large'']]\<rparr>)
   \<and> db (snd (postUpload demo_lib no_faults 7 (Some (demo_png\<lparr>fieldname := ''photo''\<rparr>)) demo_world))
       = db demo_world"
proof -
  let ?txt = "demo_png\<lparr>contentType := ''text/plain''\<rparr>"
  let ?big = "demo_png\<lparr>fsize := 5242880\<rparr>"
  let ?other = "demo_png\<lparr>fieldname := ''photo''\<rparr>"
  have h1: "(None :: file_part option) = None \<or>
      (\<exists>file. None = Some file \<and> fieldname file = ''image''
         \<and> mimeType demo_lib (contentType file) \<notin> {''image/jpeg'', ''image/png'', ''image/gif''})"
    by simp
  have h2: "Some ?txt = None \<or>
      (\<exists>file. Some ?txt = Some file \<and> fieldname file = ''image''
         \<and> mimeType demo_lib (contentType file) \<notin> {''image/jpeg'', ''image/png'', ''image/gif''})"
    by (simp add: demo_defs)
  have h3: "Some ?big = Some ?big \<and> originalname ?big \<noteq> [] \<and> fieldname ?big = ''image''
        \<and> mimeType demo_lib (contentType ?big) \<in> {''image/jpeg'', ''image/png'', ''image/gif''}
        \<and> fsize ?big \<ge> 5 * 1024 * 1024 \<and> write_fault no_faults = None
        \<and> ''/srv/uploads/images/42-7.png'' =
            join demo_lib (imageUploadDirectory demo_lib)
              (uniqueName demo_lib (clock demo_world) 7 ?big)"
    by (simp add: demo_defs imageUploadDirectory_def uniqueName_def decimal_42 decimal_7)
  have h4: "Some ?other = None \<or> (\<exists>file. Some ?other = Some file \<and>
          (originalname file = [] \<or> fieldname file \<noteq> ''image''
           \<or> mimeType demo_lib (contentType file) \<notin> {''image/jpeg'', ''image/png'', ''image/gif''}
           \<or> fsize file \<ge> 5 * 1024 * 1024 \<or> write_fault no_faults \<noteq> None))"
    by (simp add: demo_defs)
  note t1 = upload_rejected_before_database [of None demo_lib no_faults 7 demo_world,
      THEN conjunct1, rule_format, OF h1]
  note t2 = upload_rejected_before_database [of "Some ?txt" demo_lib no_faults 7 demo_world,
      THEN conjunct1, rule_format, OF h2]
  note t3 = upload_rejected_before_database [of "Some ?big" demo_lib no_faults 7 demo_world,
      THEN conjunct2, THEN conjunct1, rule_format, OF h3]
  note t4 = upload_rejected_before_database [of "Some ?other" demo_lib no_faults 7 demo_world,
      THEN conjunct2, THEN conjunct2, rule_format, OF h4]
  from t1 t2 t3 t4 show ?thesis by simp
qed

text \<open>
  The claim as written fails on a file of 6000000 bytes: the answer is the 500 of the
  error middleware, not a validation error.
\<close>

theorem oversize_upload_answered_500:
  "postUpload demo_lib no_faults 7 (Some (demo_png\<lparr>fsize := 6000000\<rparr>)) demo_world =
     (Response 500 (Obj [(''error'', Str ''File too large'')]),
      demo_world\<lparr>fs := (fs demo_world)(''/srv/uploads/images/42-7.png'' := None),
        trace := [FsWriteFile ''/srv/uploads/images/42-7.png'',
                  FsUnlink ''/srv/uploads/images/42-7.png'',
                  Console ''Unhandled error:'' [Str ''MulterError'', Str ''File too large'']]\<rparr>)"
  by (simp add: upload_defs demo_defs decimal_42 decimal_7 Let_def)

section \<open>Properties of the startup\<close>

subsection \<open>Decimal numerals and parseInt\<close>

lemma unit_of_digit: "d < 10 \<Longrightarrow> of_char (digit_char d) = (48 + d :: nat)"
proof -
  assume "d < 10"
  then have "d \<in> {0, 1, 2, 3, 4, 5, 6, 7, 8, 9}"
    by auto
  then show ?thesis
    by (elim insertE emptyE; simp add: digit_char_def)
qed

lemma decimal_digits:
  "\<exists>ds. ds \<noteq> [] \<and> (\<forall>d \<in> set ds. d < 10) \<and> units (decimal n) = map (\<lambda>d. 48 + d) ds
        \<and> digits_value 10 ds = n"
proof (induction n rule: decimal.induct)
  case (1 n)
  show ?case
  proof (cases "n < 10")
    case True
    have "units (decimal n) = map (\<lambda>d. 48 + d) [n]"
      using True by (subst decimal.simps) (simp add: units_def unit_of_digit)
    moreover have "digits_value 10 [n] = n"
      by (simp add: digits_value_def)
    ultimately show ?thesis using True by (intro exI [of _ "[n]"]) simp
  next
    case False
    then obtain ds where ds: "ds \<noteq> []" "\<forall>d \<in> set ds. d < 10"
        "units (decimal (n div 10)) = map (\<lambda>d. 48 + d) ds" "digits_value 10 ds = n div 10"
      using 1 by blast
    have "units (decimal n) = map (\<lambda>d. 48 + d) (ds @ [n mod 10])"
      using False ds(3) by (subst decimal.simps) (simp add: units_def unit_of_digit)
    moreover have "digits_value 10 (ds @ [n mod 10]) = n"
      using ds(4) by (simp add: digits_value_def)
    ultimately show ?thesis using ds(1,2) by (intro exI [of _ "ds @ [n mod 10]"]) simp
  qed
qed

lemma digits_prefix_all:
  "\<forall>d\<in>set ds. d < 10 \<Longrightarrow> digits_prefix 10 (map (\<lambda>d. 48 + d) ds) = ds"
  by (induction ds) (simp_all add: digit_of_def)

text \<open>The numeral of a number below 2^53 is read back as that number.\<close>

lemma parseInt_decimal:
  assumes "n < 9007199254740992"
  shows "parseInt (units (decimal n)) = Num (int n)"
proof -
  obtain ds where ne: "ds \<noteq> []" and lt: "\<forall>d \<in> set ds. d < 10"
      and dec: "units (decimal n) = map (\<lambda>d. 48 + d) ds" and val: "digits_value 10 ds = n"
    using decimal_digits [of n] by blast
  obtain d es where ds: "ds = d # es" using ne by (cases ds) auto
  have d: "d < 10" using lt ds by simp
  let ?s = "map (\<lambda>d. 48 + d) ds"
  have 1: "dropWhile is_space ?s = ?s"
    using d by (simp add: ds is_space_def)
  have 2: "strip_sign ?s = (False, ?s)"
    using d by (simp add: strip_sign_def ds)
  have 3: "strip_radix ?s = (10, ?s)"
  proof (cases es)
    case Nil
    then show ?thesis by (simp add: strip_radix_def ds)
  next
    case (Cons e fs)
    then have "e < 10" using lt ds by simp
    then show ?thesis using Cons by (simp add: strip_radix_def ds)
  qed
  have 4: "digits_prefix 10 ?s = ds"
    using digits_prefix_all [OF lt] .
  have 5: "round_double n = Some n"
    using assms by (simp add: round_double_def)
  show ?thesis
    unfolding dec parseInt_def
    by (simp only: 1 2 3 4 5 val Let_def split_conv) (simp add: ne)
qed

lemma decimal_ne: "units (decimal n) \<noteq> []"
  using decimal_digits [of n] by auto

subsection \<open>The table\<close>

text \<open>
  C9. With the two statements of the bootstrap succeeding: on a database without the
  table it sends the existence query, then CREATE TABLE, and returns true with the empty
  table in place; on a database with the table it sends the existence query alone and
  returns true with the database as it was. So a second run after any first run sends
  no CREATE TABLE, changes nothing and returns true.
\<close>

theorem schema_bootstrap_idempotent:
  assumes "exists_fault F = None" and "create_fault F = None"
  shows "(db w = None \<longrightarrow>
            checkAndCreateTable F w =
              (Inr True,
               w\<lparr>db := Some \<lparr>rows = [], next_identity = 1\<rparr>,
                 trace := trace w @ [DbQuery SelectObjectId, Console ''Creating Images table...'' [],
                   DbQuery CreateTable, Console ''Images table created successfully'' []]\<rparr>))
       \<and> (db w \<noteq> None \<longrightarrow>
            checkAndCreateTable F w =
              (Inr True,
               w\<lparr>trace := trace w @ [DbQuery SelectObjectId,
                   Console ''Images table already exists'' []]\<rparr>))
       \<and> fst (checkAndCreateTable F w) = Inr True
       \<and> checkAndCreateTable F (snd (checkAndCreateTable F w)) =
            (Inr True,
             (snd (checkAndCreateTable F w))
               \<lparr>trace := trace (snd (checkAndCreateTable F w)) @
                  [DbQuery SelectObjectId, Console ''Images table already exists'' []]\<rparr>)"
proof -
  have absent: "checkAndCreateTable F w =
              (Inr True,
               w\<lparr>db := Some \<lparr>rows = [], next_identity = 1\<rparr>,
                 trace := trace w @ [DbQuery SelectObjectId, Console ''Creating Images table...'' [],
                   DbQuery CreateTable, Console ''Images table created successfully'' []]\<rparr>)"
    if "db w = None" for w
    using that assms by (simp add: checkAndCreateTable_def db_query_def emit_def)
  have present: "checkAndCreateTable F w =
              (Inr True,
               w\<lparr>trace := trace w @ [DbQuery SelectObjectId,
                   Console ''Images table already exists'' []]\<rparr>)"
    if "db w \<noteq> None" for w
    using that assms by (auto simp add: checkAndCreateTable_def db_query_def emit_def)
  have after: "db (snd (checkAndCreateTable F w)) \<noteq> None"
    by (cases "db w = None") (simp_all add: absent present)
  show ?thesis
  proof (cases "db w = None")
    case True
    with absent [of w] present [OF after] show ?thesis by simp
  next
    case False
    with present [of w] present [OF after] show ?thesis by (simp del: not_None_eq)
  qed
qed

theorem schema_bootstrap_idempotent_witness:
  "checkAndCreateTable no_faults (demo_world\<lparr>db := None\<rparr>) =
     (Inr True,
      demo_world\<lparr>db := Some \<lparr>rows = [], next_identity = 1\<rparr>,
        trace := [DbQuery SelectObjectId, Console ''Creating Images table...'' [],
                  DbQuery CreateTable, Console ''Images table created successfully'' []]\<rparr>)
   \<and> checkAndCreateTable no_faults (snd (checkAndCreateTable no_faults (demo_world\<lparr>db := None\<rparr>))) =
     (Inr True,
      demo_world\<lparr>db := Some \<lparr>rows = [], next_identity = 1\<rparr>,
        trace := [DbQuery SelectObjectId, Console ''Creating Images table...'' [],
                  DbQuery CreateTable, Console ''Images table created successfully'' [],
                  DbQuery SelectObjectId, Console ''Images table already exists'' []]\<rparr>)"
proof -
  have f: "exists_fault no_faults = None" "create_fault no_faults = None"
    by (simp_all add: no_faults_def)
  have d: "db (demo_world\<lparr>db := None\<rparr>) = None"
    by simp
  note t = schema_bootstrap_idempotent [OF f, of "demo_world\<lparr>db := None\<rparr>"]
  from t [THEN conjunct1, rule_format, OF d] t [THEN conjunct2, THEN conjunct2, THEN conjunct2]
  show ?thesis by (simp add: demo_defs)
qed

subsection \<open>The database configuration\<close>

lemma prompt_eval:
  "prompt q w =
     (case stdin w of
        [] \<Rightarrow> (Pending, emit (Question q) w)
      | Line a # rest \<Rightarrow> (Returned a, (emit (Question q) w)\<lparr>stdin := rest\<rparr>)
      | Closed # rest \<Rightarrow>
          (Threw (Exn ''Error'' ''readline was closed''), (emit (Question q) w)\<lparr>stdin := rest\<rparr>))"
  by (simp add: prompt_def emit_def Let_def split: list.splits reply.splits)

lemma stdin_emit: "stdin (emit e w) = stdin w"
  by (simp add: emit_def)

text \<open>What the questions give depends on the replies waiting on standard input alone.\<close>

lemma promptDbConfig_result: "fst (promptDbConfig L F w) = answered F (stdin w)"
  by (cases "(F, stdin w)" rule: answered.cases)
     (simp_all add: promptDbConfig_def prompt_eval stdin_emit save_config_def Let_def
        split: option.splits)

lemma dbConfigFromEnv_result:
  "fst (dbConfigFromEnv L E F w) =
     (if env_truthy (DB_USER E) \<and> env_truthy (DB_PASSWORD E) \<and> env_truthy (DB_SERVER E)
         \<and> env_truthy (DB_NAME E)
      then Returned (Obj [(''user'', env_value (DB_USER E)), (''password'', env_value (DB_PASSWORD E)),
                          (''server'', env_value (DB_SERVER E)), (''database'', env_value (DB_NAME E))])
      else answered F (stdin w))"
  by (simp add: dbConfigFromEnv_def promptDbConfig_result save_config_def Let_def
      split: option.splits)

lemma getDbConfig_unreadable:
  "config_file w = Unreadable msg \<Longrightarrow>
   getDbConfig L E F w =
     dbConfigFromEnv L E F
       (w\<lparr>trace := trace w @ [FsExists (configPath L), FsReadFile (configPath L),
            Console ''Error reading config file:'' [Str msg]]\<rparr>)"
  by (simp add: getDbConfig_def config_exists_def read_config_def emit_def)

lemma getDbConfig_absent:
  "config_file w = NoFile \<Longrightarrow>
   getDbConfig L E F w = dbConfigFromEnv L E F (w\<lparr>trace := trace w @ [FsExists (configPath L)]\<rparr>)"
  by (simp add: getDbConfig_def config_exists_def emit_def)

text \<open>
  C10. When \<^verbatim>\<open>config.json\<close> exists and cannot be read as JSON, \<^verbatim>\<open>getDbConfig\<close>
  logs the error and goes on with the environment variables, then the questions, from
  a state that differs from the start only by that log line and the two file accesses.
  What it gives (a configuration, an exception, or no answer) is what it gives when the
  file is absent. With the four variables set it returns the configuration made of
  them.
\<close>

theorem unreadable_config_falls_through:
  assumes "config_file w = Unreadable msg"
  shows "getDbConfig L E F w =
           dbConfigFromEnv L E F
             (w\<lparr>trace := trace w @ [FsExists (configPath L), FsReadFile (configPath L),
                  Console ''Error reading config file:'' [Str msg]]\<rparr>)
         \<and> fst (getDbConfig L E F w) = fst (getDbConfig L E F (w\<lparr>config_file := NoFile\<rparr>))
         \<and> (env_truthy (DB_USER E) \<and> env_truthy (DB_PASSWORD E) \<and> env_truthy (DB_SERVER E)
              \<and> env_truthy (DB_NAME E) \<longrightarrow>
            fst (getDbConfig L E F w) =
              Returned (Obj [(''user'', env_value (DB_USER E)), (''password'', env_value (DB_PASSWORD E)),
                             (''server'', env_value (DB_SERVER E)), (''database'', env_value (DB_NAME E))]))"
proof (intro conjI impI)
  show "getDbConfig L E F w =
           dbConfigFromEnv L E F
             (w\<lparr>trace := trace w @ [FsExists (configPath L), FsReadFile (configPath L),
                  Console ''Error reading config file:'' [Str msg]]\<rparr>)"
    using assms by (rule getDbConfig_unreadable)
  show "fst (getDbConfig L E F w) = fst (getDbConfig L E F (w\<lparr>config_file := NoFile\<rparr>))"
    using assms
    by (simp add: getDbConfig_unreadable getDbConfig_absent dbConfigFromEnv_result)
next
  assume "env_truthy (DB_USER E) \<and> env_truthy (DB_PASSWORD E) \<and> env_truthy (DB_SERVER E)
              \<and> env_truthy (DB_NAME E)"
  then show "fst (getDbConfig L E F w) =
              Returned (Obj [(''user'', env_value (DB_USER E)), (''password'', env_value (DB_PASSWORD E)),
                             (''server'', env_value (DB_SERVER E)), (''database'', env_value (DB_NAME E))])"
    by (simp add: getDbConfig_unreadable [OF assms] dbConfigFromEnv_result)
qed

theorem unreadable_config_falls_through_witness:
  "getDbConfig demo_lib demo_env no_faults (demo_world\<lparr>config_file := Unreadable ''Unexpected end of JSON input''\<rparr>) =
     (Returned (Obj [(''user'', Str ''sa''), (''password'', Str ''secret''),
                     (''server'', Str ''localhost''), (''database'', Str ''images'')]),
      demo_world\<lparr>config_file := Content (Obj [(''user'', Str ''sa''), (''password'', Str ''secret''),
                     (''server'', Str ''localhost''), (''database'', Str ''images'')]),
        trace := [FsExists ''/srv/config.json'', FsReadFile ''/srv/config.json'',
                  Console ''Error reading config file:'' [Str ''Unexpected end of JSON input''],
                  FsWriteFile ''/srv/config.json'']\<rparr>)
   \<and> fst (getDbConfig demo_lib demo_env no_faults demo_world) =
     Returned (Obj [(''user'', Str ''sa''), (''password'', Str ''secret''),
                    (''server'', Str ''localhost''), (''database'', Str ''images'')])"
proof -
  let ?w = "demo_world\<lparr>config_file := Unreadable ''Unexpected end of JSON input''\<rparr>"
  have h: "config_file ?w = Unreadable ''Unexpected end of JSON input''"
    by simp
  have n: "?w\<lparr>config_file := NoFile\<rparr> = demo_world"
    by (simp add: demo_defs)
  have e: "env_truthy (DB_USER demo_env) \<and> env_truthy (DB_PASSWORD demo_env)
      \<and> env_truthy (DB_SERVER demo_env) \<and> env_truthy (DB_NAME demo_env)"
    by (simp add: env_truthy_def demo_defs)
  note t = unreadable_config_falls_through [OF h, of demo_lib demo_env no_faults]
  from t [THEN conjunct1] t [THEN conjunct2, THEN conjunct1]
    t [THEN conjunct2, THEN conjunct2, rule_format, OF e]
  show ?thesis
    by (simp add: n) (simp add: dbConfigFromEnv_def save_config_def emit_def configPath_def
        env_truthy_def env_value_def demo_defs Let_def)
qed

subsection \<open>The port\<close>

lemma portFromFile_none:
  assumes "config_file w = NoFile \<or> (\<exists>m. config_file w = Unreadable m) \<or>
           (\<exists>c. config_file w = Content c \<and> (\<forall>v. get_prop c ''port'' = Inr v \<longrightarrow> \<not> truthy v))"
  shows "\<exists>config w1. portFromFile L w = ((config, None), w1) \<and> stdin w1 = stdin w"
proof -
  consider (absent) "config_file w = NoFile" | (unreadable) m where "config_file w = Unreadable m"
    | (content) c where "config_file w = Content c"
        "\<forall>v. get_prop c ''port'' = Inr v \<longrightarrow> \<not> truthy v"
    using assms by blast
  then show ?thesis
  proof cases
    case absent
    then show ?thesis
      by (simp add: portFromFile_def config_exists_def emit_def)
  next
    case unreadable
    then show ?thesis
      by (simp add: portFromFile_def config_exists_def read_config_def emit_def)
  next
    case content
    then show ?thesis
      by (cases "get_prop c ''port''")
         (simp_all add: portFromFile_def config_exists_def read_config_def emit_def)
  qed
qed

lemma promptPort_declined:
  "stdin w = Line a # rest \<Longrightarrow> \<not> is_y a \<Longrightarrow>
   fst (promptPort L F config w) = Returned (Num 3001)"
  by (simp add: promptPort_def prompt_eval emit_def defaultPort_def)

lemma port_default:
  assumes "\<not> env_truthy (PORT E)"
    and "config_file w = NoFile \<or> (\<exists>m. config_file w = Unreadable m) \<or>
         (\<exists>c. config_file w = Content c \<and> (\<forall>v. get_prop c ''port'' = Inr v \<longrightarrow> \<not> truthy v))"
    and "\<not> pkg E \<or> (\<exists>a rest. stdin w = Line a # rest \<and> \<not> is_y a)"
  shows "fst (getPortConfiguration L E F w) = Returned (Num 3001)"
proof -
  obtain config w1 where pf: "portFromFile L w = ((config, None), w1)" and st: "stdin w1 = stdin w"
    using portFromFile_none [OF assms(2)] by blast
  show ?thesis
  proof (cases "pkg E")
    case False
    then show ?thesis
      using assms(1) pf by (simp add: getPortConfiguration_def defaultPort_def)
  next
    case True
    then obtain a rest where "stdin w = Line a # rest" "\<not> is_y a"
      using assms(3) by blast
    then have "fst (promptPort L F config w1) = Returned (Num 3001)"
      using st by (simp add: promptPort_declined)
    then show ?thesis
      using assms(1) pf True by (simp add: getPortConfiguration_def)
  qed
qed

text \<open>
  C5. The port is resolved in this order. (1) With \<^verbatim>\<open>PORT\<close> set (to a non-empty
  text) the result is \<^verbatim>\<open>parseInt\<close> of it, whatever \<^verbatim>\<open>config.json\<close> holds, whether
  or not the process is packaged and whatever is typed: for the decimal numeral of a
  number \<open>p\<close> below 2^53, the number \<open>p\<close>. (2) Otherwise, with a \<^verbatim>\<open>config.json\<close> whose \<^verbatim>\<open>port\<close> property has
  a value that counts as true (every port from 1 to 65535 does), the result is that
  value. (3) Otherwise, when the process is not packaged or the first answer is not
  \<^verbatim>\<open>y\<close>, the result is 3001.
\<close>

theorem port_resolution_cascade:
  "(\<forall>s. PORT E = Some s \<and> s \<noteq> [] \<longrightarrow>
        fst (getPortConfiguration L E F w) = Returned (parseInt s))
   \<and> (\<forall>p. p < 9007199254740992 \<and> PORT E = Some (units (decimal p)) \<longrightarrow>
        fst (getPortConfiguration L E F w) = Returned (Num (int p)))
   \<and> (\<forall>kvs v. \<not> env_truthy (PORT E) \<and> config_file w = Content (Obj kvs)
          \<and> map_of kvs ''port'' = Some v \<and> truthy v \<longrightarrow>
        fst (getPortConfiguration L E F w) = Returned v)
   \<and> (\<not> env_truthy (PORT E)
        \<and> (config_file w = NoFile \<or> (\<exists>m. config_file w = Unreadable m) \<or>
           (\<exists>c. config_file w = Content c \<and> (\<forall>v. get_prop c ''port'' = Inr v \<longrightarrow> \<not> truthy v)))
        \<and> (\<not> pkg E \<or> (\<exists>a rest. stdin w = Line a # rest \<and> \<not> is_y a)) \<longrightarrow>
        fst (getPortConfiguration L E F w) = Returned (Num 3001))"
proof (intro conjI allI impI)
  fix s
  assume "PORT E = Some s \<and> s \<noteq> []"
  then show "fst (getPortConfiguration L E F w) = Returned (parseInt s)"
    by (simp add: getPortConfiguration_def env_truthy_def)
next
  fix p
  assume "p < 9007199254740992 \<and> PORT E = Some (units (decimal p))"
  then show "fst (getPortConfiguration L E F w) = Returned (Num (int p))"
    by (simp add: getPortConfiguration_def env_truthy_def decimal_ne parseInt_decimal)
next
  fix kvs v
  assume "\<not> env_truthy (PORT E) \<and> config_file w = Content (Obj kvs)
          \<and> map_of kvs ''port'' = Some v \<and> truthy v"
  then show "fst (getPortConfiguration L E F w) = Returned v"
    by (simp add: getPortConfiguration_def portFromFile_def config_exists_def read_config_def
        emit_def Let_def)
next
  assume "\<not> env_truthy (PORT E)
        \<and> (config_file w = NoFile \<or> (\<exists>m. config_file w = Unreadable m) \<or>
           (\<exists>c. config_file w = Content c \<and> (\<forall>v. get_prop c ''port'' = Inr v \<longrightarrow> \<not> truthy v)))
        \<and> (\<not> pkg E \<or> (\<exists>a rest. stdin w = Line a # rest \<and> \<not> is_y a))"
  then show "fst (getPortConfiguration L E F w) = Returned (Num 3001)"
    using port_default [of E w L F] by blast
qed

lemma decimal_4000: "decimal 4000 = ''4000''"
  by (simp add: decimal.simps digit_char_def)

theorem port_resolution_cascade_witness:
  "fst (getPortConfiguration demo_lib (demo_env\<lparr>PORT := Some (units ''4000'')\<rparr>) no_faults
          (demo_world\<lparr>config_file := Content demo_config\<rparr>)) = Returned (Num 4000)
   \<and> fst (getPortConfiguration demo_lib demo_env no_faults
          (demo_world\<lparr>config_file := Content demo_config\<rparr>)) = Returned (Num 5000)
   \<and> fst (getPortConfiguration demo_lib demo_env no_faults demo_world) = Returned (Num 3001)"
proof -
  let ?E = "demo_env\<lparr>PORT := Some (units ''4000'')\<rparr>"
  let ?w = "demo_world\<lparr>config_file := Content demo_config\<rparr>"
  have h1: "(4000::nat) < 9007199254740992 \<and> PORT ?E = Some (units (decimal 4000))"
    by (simp add: decimal_4000)
  have h1': "PORT ?E = Some (units ''4000'') \<and> units ''4000'' \<noteq> []"
    by (simp add: units_def)
  have p: "parseInt (units ''4000'') = Num 4000"
    by (simp add: parse_defs)
  have h2: "\<not> env_truthy (PORT demo_env) \<and>
      config_file ?w = Content (Obj [(''user'', Str ''sa''), (''password'', Str ''secret''),
        (''server'', Str ''localhost''), (''database'', Str ''images''), (''port'', Num 5000)])
      \<and> map_of [(''user'', Str ''sa''), (''password'', Str ''secret''),
        (''server'', Str ''localhost''), (''database'', Str ''images''), (''port'', Num 5000)] ''port''
          = Some (Num 5000)
      \<and> truthy (Num 5000)"
    by (simp add: demo_defs env_truthy_def)
  have h3: "\<not> env_truthy (PORT demo_env)
        \<and> (config_file demo_world = NoFile \<or> (\<exists>m. config_file demo_world = Unreadable m) \<or>
           (\<exists>c. config_file demo_world = Content c \<and> (\<forall>v. get_prop c ''port'' = Inr v \<longrightarrow> \<not> truthy v)))
        \<and> (\<not> pkg demo_env \<or> (\<exists>a rest. stdin demo_world = Line a # rest \<and> \<not> is_y a))"
    by (simp add: demo_defs env_truthy_def)
  note t1 = port_resolution_cascade [of ?E demo_lib no_faults ?w, THEN conjunct1, rule_format, OF h1']
  note t1' = port_resolution_cascade [of ?E demo_lib no_faults ?w, THEN conjunct2, THEN conjunct1,
      rule_format, OF h1]
  note t2 = port_resolution_cascade [of demo_env demo_lib no_faults ?w, THEN conjunct2, THEN conjunct2,
      THEN conjunct1, rule_format, OF h2]
  note t3 = port_resolution_cascade [of demo_env demo_lib no_faults demo_world, THEN conjunct2,
      THEN conjunct2, THEN conjunct2, rule_format, OF h3]
  from t1 t1' t2 t3 show ?thesis
    by (simp add: p)
qed

subsection \<open>Failure of the startup\<close>

lemma initFailed_status: "fst (initFailed w) = NoListener"
  by (simp add: initFailed_def)

lemma startListening_no_exit: "fst (startListening F port w) \<noteq> Exited c"
  by (simp add: startListening_def initFailed_def Let_def split: listen_outcome.splits)

lemma initializeServer_no_exit: "fst (initializeServer L E F w) \<noteq> Exited c"
  by (simp add: initializeServer_def initFailed_status startListening_no_exit Let_def
      split: prod.splits outcome.splits sum.splits option.splits)

text \<open>
  C4. When the resolution of the database configuration throws, when the resolved
  configuration does not validate, and when the connection to the database fails,
  \<^verbatim>\<open>initializeServer\<close> logs the line ``Server initialization failed:'' and returns
  normally: its effects end with that line, so no listener is opened and
  \<^verbatim>\<open>process.exit\<close> is not called. No run of the startup calls \<^verbatim>\<open>process.exit\<close>.
\<close>

theorem startup_failure_returns_without_exit:
  "(\<forall>e w1. getDbConfig L E F w = (Threw e, w1) \<longrightarrow>
        initializeServer L E F w =
          (NoListener, w1\<lparr>trace := trace w1 @ [Console ''Server initialization failed:'' []]\<rparr>))
   \<and> (\<forall>config w1 e. getDbConfig L E F w = (Returned config, w1) \<and> validateDbConfig config = Inl e \<longrightarrow>
        initializeServer L E F w =
          (NoListener, w1\<lparr>trace := trace w1 @ [Console ''Server initialization failed:'' []]\<rparr>))
   \<and> (\<forall>config w1 ok msg. getDbConfig L E F w = (Returned config, w1) \<and> validateDbConfig config = Inr ok
          \<and> connect_fault F = Some msg \<longrightarrow>
        initializeServer L E F w =
          (NoListener,
           w1\<lparr>trace := trace w1 @ [Console ''Connecting to database...'' [], DbConnect,
                Console ''Server initialization failed:'' []]\<rparr>))
   \<and> (\<forall>code. fst (initializeServer L E F w) \<noteq> Exited code)"
proof (intro conjI allI impI)
  fix e w1
  assume "getDbConfig L E F w = (Threw e, w1)"
  then show "initializeServer L E F w =
      (NoListener, w1\<lparr>trace := trace w1 @ [Console ''Server initialization failed:'' []]\<rparr>)"
    by (simp add: initializeServer_def initFailed_def emit_def)
next
  fix config w1 e
  assume "getDbConfig L E F w = (Returned config, w1) \<and> validateDbConfig config = Inl e"
  then show "initializeServer L E F w =
      (NoListener, w1\<lparr>trace := trace w1 @ [Console ''Server initialization failed:'' []]\<rparr>)"
    by (simp add: initializeServer_def initFailed_def emit_def)
next
  fix config w1 ok msg
  assume "getDbConfig L E F w = (Returned config, w1) \<and> validateDbConfig config = Inr ok
          \<and> connect_fault F = Some msg"
  then show "initializeServer L E F w =
      (NoListener,
       w1\<lparr>trace := trace w1 @ [Console ''Connecting to database...'' [], DbConnect,
            Console ''Server initialization failed:'' []]\<rparr>)"
    by (simp add: initializeServer_def initFailed_def emit_def)
next
  fix code
  show "fst (initializeServer L E F w) \<noteq> Exited code"
    by (rule initializeServer_no_exit)
qed

theorem startup_failure_returns_without_exit_witness:
  "fst (initializeServer demo_lib (demo_env\<lparr>DB_USER := None\<rparr>) no_faults
          (demo_world\<lparr>stdin := [Line ''sa'', Closed]\<rparr>)) = NoListener
   \<and> fst (initializeServer demo_lib demo_env no_faults
          (demo_world\<lparr>config_file := Content (Obj [(''user'', Str ''sa'')])\<rparr>)) = NoListener
   \<and> fst (initializeServer demo_lib demo_env (no_faults\<lparr>connect_fault := Some ''ELOGIN''\<rparr>) demo_world)
       = NoListener"
proof -
  let ?E1 = "demo_env\<lparr>DB_USER := None\<rparr>"
  let ?F1 = "no_faults"
  let ?w1 = "demo_world\<lparr>stdin := [Line ''sa'', Closed]\<rparr>"
  let ?w2 = "demo_world\<lparr>config_file := Content (Obj [(''user'', Str ''sa'')])\<rparr>"
  let ?F3 = "no_faults\<lparr>connect_fault := Some ''ELOGIN''\<rparr>"
  let ?cfg = "Obj [(''user'', Str ''sa''), (''password'', Str ''secret''),
                   (''server'', Str ''localhost''), (''database'', Str ''images'')]"
  have "fst (getDbConfig demo_lib ?E1 ?F1 ?w1) =
      Threw (Exn ''ConfigurationError'' ''Password prompt failed or timed out'')"
    by (simp add: getDbConfig_absent dbConfigFromEnv_result env_truthy_def demo_defs)
  then have g1: "getDbConfig demo_lib ?E1 ?F1 ?w1 =
      (Threw (Exn ''ConfigurationError'' ''Password prompt failed or timed out''),
       snd (getDbConfig demo_lib ?E1 ?F1 ?w1))"
    by (simp add: prod_eq_iff)
  have "fst (getDbConfig demo_lib demo_env no_faults ?w2) = Returned (Obj [(''user'', Str ''sa'')])"
    by (simp add: getDbConfig_def config_exists_def read_config_def emit_def)
  then have g2: "getDbConfig demo_lib demo_env no_faults ?w2 =
      (Returned (Obj [(''user'', Str ''sa'')]), snd (getDbConfig demo_lib demo_env no_faults ?w2))
      \<and> validateDbConfig (Obj [(''user'', Str ''sa'')]) =
          Inl (Exn ''ConfigurationError''
            ''Missing required database configuration fields: password, server, database'')"
    by (simp add: prod_eq_iff validateDbConfig_def requiredFields_def)
  have "fst (getDbConfig demo_lib demo_env ?F3 demo_world) = Returned ?cfg"
    by (simp add: getDbConfig_absent dbConfigFromEnv_result env_truthy_def env_value_def demo_defs)
  then have g3: "getDbConfig demo_lib demo_env ?F3 demo_world =
      (Returned ?cfg, snd (getDbConfig demo_lib demo_env ?F3 demo_world))
      \<and> validateDbConfig ?cfg = Inr True \<and> connect_fault ?F3 = Some ''ELOGIN''"
    by (simp add: prod_eq_iff validateDbConfig_def requiredFields_def)
  note t1 = startup_failure_returns_without_exit [of demo_lib ?E1 ?F1 ?w1, THEN conjunct1,
      rule_format, OF g1]
  note t2 = startup_failure_returns_without_exit [of demo_lib demo_env no_faults ?w2,
      THEN conjunct2, THEN conjunct1, rule_format, OF g2]
  note t3 = startup_failure_returns_without_exit [of demo_lib demo_env ?F3 demo_world,
      THEN conjunct2, THEN conjunct2, THEN conjunct1, rule_format, OF g3]
  from t1 t2 t3 show ?thesis by simp
qed

text \<open>
  The claim as written fails when the connection is refused: the startup logs its one
  fixed line, which does not name the cause, and returns; \<^verbatim>\<open>process.exit\<close> is not
  called, so no exit code is set.
\<close>

theorem startup_connect_failure_no_exit:
  "initializeServer demo_lib demo_env (no_faults\<lparr>connect_fault := Some ''ELOGIN''\<rparr>) demo_world =
     (NoListener,
      demo_world\<lparr>config_file := Content (Obj [(''user'', Str ''sa''), (''password'', Str ''secret''),
                     (''server'', Str ''localhost''), (''database'', Str ''images'')]),
        trace := [FsExists ''/srv/config.json'', FsWriteFile ''/srv/config.json'',
                  Console ''Connecting to database...'' [], DbConnect,
                  Console ''Server initialization failed:'' []]\<rparr>)"
  by (simp add: initializeServer_def initFailed_def getDbConfig_def config_exists_def
      dbConfigFromEnv_def save_config_def validateDbConfig_def requiredFields_def
      env_truthy_def env_value_def configPath_def emit_def demo_defs Let_def)

end
